theory Spec2Isabelle
  imports Complex_Main "HOL-Library.AList"
begin

section \<open>Data model\<close>

text \<open>
  The documents of the three collections touched by the API in \<^verbatim>\<open>src/functions/api.js\<close>.
  Counters, balances, stock and stored quantities are whole numbers; an item's price is
  the rational value of a double-precision number; timestamps are integers
  (milliseconds). Field names are the source's, with a prefix where two documents have a
  field of the same name.
\<close>

record AchievementRecord =
  a_name :: string
  a_completed :: bool

record UserStats =
  uuid :: string
  userId :: string
  serverId :: string
  username :: string
  userAvatar :: string
  totalMessages :: int
  messagesToday :: int
  messagesLast7Days :: int
  messagesLast30Days :: int
  voiceTime :: int
  stars :: int
  achievements :: "AchievementRecord list"
  roleAcquisitionDates :: "(string \<times> int) list"

record Item =
  item_id :: string
  item_name :: string
  price :: rat
  stock :: int

text \<open>
  \<^verbatim>\<open>inventorySchema\<close> of \<^verbatim>\<open>src/inventory.js\<close>: \<^verbatim>\<open>userId\<close> and \<^verbatim>\<open>guildId\<close> are required
  strings, each line has a required \<^verbatim>\<open>itemId\<close> and \<^verbatim>\<open>itemName\<close> and a numeric
  \<^verbatim>\<open>quantity\<close>. A path that was never set is \<open>None\<close>.
\<close>

record InventoryLine =
  itemId :: string
  itemName :: string
  quantity :: int

record Inventory =
  inv_userId :: string
  guildId :: "string option"
  items :: "InventoryLine list"

record Database =
  users :: "UserStats list"
  shop :: "Item list"
  inventories :: "Inventory list"

section \<open>Library operations used by the handlers\<close>

text \<open>
  \<^verbatim>\<open>Array.prototype.findIndex\<close>; \<^verbatim>\<open>Model.findOne\<close> is the same search over a collection
  (the first matching document), with the position standing for the document's identity.
  The result \<open>None\<close> is JavaScript's \<open>-1\<close> (respectively \<open>null\<close>).
\<close>

fun findIndex :: "('a \<Rightarrow> bool) \<Rightarrow> 'a list \<Rightarrow> nat option" where
  "findIndex p [] = None"
| "findIndex p (x # xs) = (if p x then Some 0 else map_option Suc (findIndex p xs))"

section \<open>JavaScript numbers and values\<close>

text \<open>
  Double-precision arithmetic on rationals. \<open>exponent x\<close> is the binary exponent of a
  positive \<open>x\<close> (the largest \<open>e\<close> with \<open>2^e \<le> x\<close>); \<open>fl x\<close> is the double nearest
  to \<open>x\<close>, a tie going to the even significand: 53 significant bits, exponents from
  \<open>-1022\<close> (below which the spacing stays \<open>2^-1074\<close>). Overflow to infinity is not
  represented: the products formed below have a factor of at most 1.
\<close>

function ilog2 :: "int \<Rightarrow> int" where
  "ilog2 n = (if n < 2 then 0 else ilog2 (n div 2) + 1)"
  by pat_completeness auto
termination
  by (relation "measure nat") auto

declare ilog2.simps [simp del]

definition pow2 :: "int \<Rightarrow> rat" where
  "pow2 k = (if 0 \<le> k then 2 ^ nat k else 1 / 2 ^ nat (- k))"

definition exponent :: "rat \<Rightarrow> int" where
  "exponent x = (if 1 \<le> x then ilog2 \<lfloor>x\<rfloor>
                 else - ilog2 (\<lceil>1 / x\<rceil> - 1) - 1)"

definition round_ties_even :: "rat \<Rightarrow> int" where
  "round_ties_even y =
     (let f = \<lfloor>y\<rfloor>; r = y - of_int f
      in if r < 1 / 2 then f else if 1 / 2 < r then f + 1 else if even f then f else f + 1)"

definition fl :: "rat \<Rightarrow> rat" where
  "fl x =
     (if x = 0 then 0
      else (let a = \<bar>x\<bar>; e = max (exponent a) (- 1022); u = pow2 (e - 52)
            in sgn x * (of_int (round_ties_even (a / u)) * u)))"

text \<open>
  \<^verbatim>\<open>Math.round\<close> of a double: the nearest integer, a tie going up. The result is exact,
  no rounding of \<open>x + 1/2\<close> takes place.
\<close>

definition Math_round :: "rat \<Rightarrow> int" where
  "Math_round x = \<lfloor>x + 1 / 2\<rfloor>"

text \<open>
  A value of a JSON request body, as \<^verbatim>\<open>express.json\<close> hands it to the handler; a key that
  is missing reads as \<open>JsUndefined\<close>. JSON numbers are whole numbers here.
\<close>

datatype JsValue =
    JsUndefined
  | JsNull
  | JsBool bool
  | JsNumber int
  | JsString string
  | JsArray "JsValue list"
  | JsObject "(string \<times> JsValue) list"

text \<open>
  The conversion of a string to a number, for the strings this development follows: a
  string that is empty after its ASCII white space is trimmed is 0; an optional sign
  followed by decimal digits is that integer, as far as it is at most \<open>2^53\<close> in absolute
  value (beyond, the nearest double may be another integer). For every other string the
  result is \<open>None\<close>: JavaScript gives \<^verbatim>\<open>NaN\<close>, or a number that is not whole, or a number
  written in a form that is not parsed here (a fraction, an exponent, a hexadecimal
  literal, Unicode white space).
\<close>

definition is_ws :: "char \<Rightarrow> bool" where
  "is_ws c = (c \<in> set [CHR 0x09, CHR 0x0A, CHR 0x0B, CHR 0x0C, CHR 0x0D, CHR 0x20])"

definition trim :: "string \<Rightarrow> string" where
  "trim s = rev (dropWhile is_ws (rev (dropWhile is_ws s)))"

definition digit_of :: "char \<Rightarrow> nat option" where
  "digit_of c = map_of [(CHR ''0'', 0), (CHR ''1'', 1), (CHR ''2'', 2), (CHR ''3'', 3), (CHR ''4'', 4),
       (CHR ''5'', 5), (CHR ''6'', 6), (CHR ''7'', 7), (CHR ''8'', 8), (CHR ''9'', 9)] c"

fun digits_value :: "int \<Rightarrow> string \<Rightarrow> int option" where
  "digits_value acc [] = Some acc"
| "digits_value acc (c # cs) =
     (case digit_of c of
        None \<Rightarrow> None
      | Some d \<Rightarrow> digits_value (10 * acc + int d) cs)"

definition unsigned_value :: "string \<Rightarrow> int option" where
  "unsigned_value ds = (if ds = [] then None else digits_value 0 ds)"

definition StringToNumber :: "string \<Rightarrow> int option" where
  "StringToNumber s =
     (let t = trim s;
          v = (case t of
                 [] \<Rightarrow> Some 0
               | c # cs \<Rightarrow>
                   if c = CHR ''-'' then map_option uminus (unsigned_value cs)
                   else if c = CHR ''+'' then unsigned_value cs
                   else unsigned_value t)
      in case v of
           None \<Rightarrow> None
         | Some n \<Rightarrow> if \<bar>n\<bar> \<le> 9007199254740992 then Some n else None)"

text \<open>
  \<^verbatim>\<open>ToNumber\<close>, as applied by \<^verbatim>\<open><\<close>, \<^verbatim>\<open>*\<close> and \<^verbatim>\<open>-=\<close> to an operand that is not a number.
  \<open>None\<close> means that the execution is not followed further: the conversion gives
  \<^verbatim>\<open>NaN\<close> (\<^verbatim>\<open>undefined\<close>, most strings and objects) or goes through the string form of an
  array or object, which is not modelled.
\<close>

fun ToNumber :: "JsValue \<Rightarrow> int option" where
  "ToNumber JsUndefined = None"
| "ToNumber JsNull = Some 0"
| "ToNumber (JsBool b) = Some (if b then 1 else 0)"
| "ToNumber (JsNumber n) = Some n"
| "ToNumber (JsString s) = StringToNumber s"
| "ToNumber (JsArray vs) = None"
| "ToNumber (JsObject kvs) = None"

text \<open>
  The decimal form of a whole number, which is what \<^verbatim>\<open>String(n)\<close> gives below \<open>10^21\<close>
  in absolute value.
\<close>

function decimal :: "int \<Rightarrow> string" where
  "decimal n =
     (if n < 10 then [''0123456789'' ! nat n] else decimal (n div 10) @ [''0123456789'' ! nat (n mod 10)])"
  by pat_completeness auto
termination
  by (relation "measure nat") auto

declare decimal.simps [simp del]

definition NumberToString :: "int \<Rightarrow> string option" where
  "NumberToString n =
     (if 1000000000000000000000 \<le> \<bar>n\<bar> then None
      else if n < 0 then Some (CHR ''-'' # decimal (- n))
      else Some (decimal n))"

text \<open>
  The cast that a Mongoose path of type Number applies to a value it is given
  (\<^verbatim>\<open>castNumber\<close>): a number is kept, a boolean and a string are converted, the empty
  string and \<^verbatim>\<open>null\<close> become \<^verbatim>\<open>null\<close>, and \<^verbatim>\<open>undefined\<close> takes the schema's default, 1 for
  a line's quantity. \<open>None\<close>: the stored value is \<^verbatim>\<open>null\<close> or the cast is one that is not
  followed.
\<close>

fun castQuantity :: "JsValue \<Rightarrow> int option" where
  "castQuantity JsUndefined = Some 1"
| "castQuantity JsNull = None"
| "castQuantity (JsBool b) = Some (if b then 1 else 0)"
| "castQuantity (JsNumber n) = Some n"
| "castQuantity (JsString s) = (if s = [] then None else StringToNumber s)"
| "castQuantity (JsArray vs) = None"
| "castQuantity (JsObject kvs) = None"

text \<open>
  Line 462: \<^verbatim>\<open>line.quantity += quantity\<close> on a Mongoose document. \<^verbatim>\<open>+\<close> adds numbers, with
  \<^verbatim>\<open>null\<close> and booleans converted; with a string operand it concatenates the decimal form
  of the stored quantity and the string, and the assignment casts the resulting string
  back to a number.
\<close>

fun plusAssignQuantity :: "int \<Rightarrow> JsValue \<Rightarrow> int option" where
  "plusAssignQuantity n JsUndefined = None"
| "plusAssignQuantity n JsNull = Some n"
| "plusAssignQuantity n (JsBool b) = Some (n + (if b then 1 else 0))"
| "plusAssignQuantity n (JsNumber k) = Some (n + k)"
| "plusAssignQuantity n (JsString s) =
     (case NumberToString n of
        None \<Rightarrow> None
      | Some d \<Rightarrow> StringToNumber (d @ s))"
| "plusAssignQuantity n (JsArray vs) = None"
| "plusAssignQuantity n (JsObject kvs) = None"

section \<open>Dates and schema validation\<close>

text \<open>\<^verbatim>\<open>Date.prototype.getDay\<close>: 0 is Sunday, 6 is Saturday.\<close>

datatype weekday = Sunday | Monday | Tuesday | Wednesday | Thursday | Friday | Saturday

fun getDay :: "weekday \<Rightarrow> nat" where
  "getDay Sunday = 0"
| "getDay Monday = 1"
| "getDay Tuesday = 2"
| "getDay Wednesday = 3"
| "getDay Thursday = 4"
| "getDay Friday = 5"
| "getDay Saturday = 6"

text \<open>
  Schema validation run by \<^verbatim>\<open>inventory.save\<close>: a required string path must be present
  and non-empty, in the document and in every line of \<^verbatim>\<open>items\<close>.
\<close>

definition required :: "string option \<Rightarrow> bool" where
  "required v = (case v of None \<Rightarrow> False | Some s \<Rightarrow> s \<noteq> [])"

definition line_valid :: "InventoryLine \<Rightarrow> bool" where
  "line_valid l = (required (Some (itemId l)) \<and> required (Some (itemName l)))"

definition inventory_valid :: "Inventory \<Rightarrow> bool" where
  "inventory_valid d =
     (required (Some (inv_userId d)) \<and> required (guildId d) \<and> list_all line_valid (items d))"

section \<open>The database and its transactions\<close>

text \<open>
  The part of MongoDB's behaviour that the purchase relies on, for the one session the
  handler opens. \<open>stored\<close> is the committed data; \<open>txn\<close> is the view of the transaction
  that is in progress, if there is one. An operation that is given the session reads and
  writes the view while a transaction is in progress; an operation without it, or with a
  session that has no transaction, reads and writes the committed data. Aborting drops
  the view, committing makes it the committed data, ending the session drops a
  transaction that is still in progress.
\<close>

record Mongo =
  stored :: Database
  txn :: "Database option"

datatype SessionOption = NoSession | InSession

definition startTransaction :: "Mongo \<Rightarrow> Mongo" where
  "startTransaction m = m\<lparr>txn := Some (stored m)\<rparr>"

definition visible :: "SessionOption \<Rightarrow> Mongo \<Rightarrow> Database" where
  "visible s m =
     (case s of
        NoSession \<Rightarrow> stored m
      | InSession \<Rightarrow> (case txn m of None \<Rightarrow> stored m | Some v \<Rightarrow> v))"

definition db_write :: "SessionOption \<Rightarrow> (Database \<Rightarrow> Database) \<Rightarrow> Mongo \<Rightarrow> Mongo" where
  "db_write s f m =
     (case s of
        NoSession \<Rightarrow> m\<lparr>stored := f (stored m)\<rparr>
      | InSession \<Rightarrow>
          (case txn m of
             None \<Rightarrow> m\<lparr>stored := f (stored m)\<rparr>
           | Some v \<Rightarrow> m\<lparr>txn := Some (f v)\<rparr>))"

definition abortTransaction :: "Mongo \<Rightarrow> Mongo" where
  "abortTransaction m = m\<lparr>txn := None\<rparr>"

definition commitTransaction :: "Mongo \<Rightarrow> Mongo" where
  "commitTransaction m =
     (case txn m of
        None \<Rightarrow> m
      | Some v \<Rightarrow> m\<lparr>stored := v, txn := None\<rparr>)"

definition endSession :: "Mongo \<Rightarrow> Mongo" where
  "endSession m = m\<lparr>txn := None\<rparr>"

section \<open>The purchase transactor: POST /buy\<close>

text \<open>
  The request body. \<^verbatim>\<open>quantity\<close> is used as it arrives, whatever its JSON type (line 405);
  the three identifiers are strings.
\<close>

record BuyRequest =
  req_uuid :: string
  req_userId :: string
  req_itemName :: string
  req_quantity :: JsValue

text \<open>
  The responses of the handler. \<open>Purchased q n t\<close> is the success message
  (\<open>q\<close> times item \<open>n\<close> for \<open>t\<close> stars); the others are the error bodies.
\<close>

datatype BuyResponse =
    Purchased JsValue string int
  | UserNotFound
  | ItemNotFound
  | InsufficientStock
  | InsufficientStars
  | PurchaseError

fun buy_status :: "BuyResponse \<Rightarrow> nat" where
  "buy_status (Purchased q n t) = 200"
| "buy_status UserNotFound = 404"
| "buy_status ItemNotFound = 404"
| "buy_status InsufficientStock = 400"
| "buy_status InsufficientStars = 400"
| "buy_status PurchaseError = 500"

text \<open>
  What the handler reads from outside the database: the current day, the member's roles
  as fetched through the Discord client (\<open>None\<close>: the fetch rejects), and which awaited
  database operation rejects. A commit that rejects has not been applied.
\<close>

datatype DbOp =
  FindUser | FindItem | SaveUser | SaveItem | FindInventory | SaveInventory | Commit

record BuyEnv =
  today :: weekday
  memberRoles :: "string \<Rightarrow> string list option"
  dbFails :: "DbOp \<Rightarrow> bool"

text \<open>
  Lines 427 to 439: the percentages are added, then the price is scaled and rounded once.
  The division, the subtraction and the product are double-precision operations.
\<close>

definition discountedPrice :: "weekday \<Rightarrow> string list \<Rightarrow> rat \<Rightarrow> int" where
  "discountedPrice day roles item_price =
     (let isDiscountDay = (getDay day = 0 \<or> getDay day = 6);
          discountPercentage = (if isDiscountDay then 5 else 0);
          hasPermanentDiscountRole = (''1260383669839724634'' \<in> set roles);
          discountPercentage =
            (if hasPermanentDiscountRole then discountPercentage + 20 else discountPercentage)
      in Math_round (fl (item_price * fl (1 - fl (discountPercentage / 100)))))"

text \<open>
  An awaited step of the handler: it completes with a value, or it rejects (the
  \<^verbatim>\<open>catch\<close> block runs), or it takes the execution out of what is followed here.
\<close>

datatype 'a attempt = Completes 'a | Rejects | Unfollowed

text \<open>
  Lines 455 to 466: the user's inventory is looked up in the session (a fresh one, with
  no \<^verbatim>\<open>guildId\<close>, when there is none), the line of the item is incremented or a new line
  is pushed, and the document is saved in the session, which validates it.
\<close>

definition upsertLine :: "Item \<Rightarrow> JsValue \<Rightarrow> InventoryLine list \<Rightarrow> InventoryLine list option" where
  "upsertLine item qv ls =
     (case findIndex (\<lambda>i. itemId i = item_id item) ls of
        Some existingItemIndex \<Rightarrow>
          map_option (\<lambda>n. ls[existingItemIndex := (ls ! existingItemIndex)\<lparr>quantity := n\<rparr>])
            (plusAssignQuantity (quantity (ls ! existingItemIndex)) qv)
      | None \<Rightarrow>
          map_option (\<lambda>n. ls @ [\<lparr>itemId = item_id item, itemName = item_name item, quantity = n\<rparr>])
            (castQuantity qv))"

definition saveInventory :: "BuyEnv \<Rightarrow> Mongo \<Rightarrow> string \<Rightarrow> Item \<Rightarrow> JsValue \<Rightarrow> Mongo attempt" where
  "saveInventory env m uid item qv =
     (if dbFails env FindInventory then Rejects
      else
        (let found = findIndex (\<lambda>d. inv_userId d = uid) (inventories (visible InSession m));
             inventory = (case found of
                            Some k \<Rightarrow> inventories (visible InSession m) ! k
                          | None \<Rightarrow> \<lparr>inv_userId = uid, guildId = None, items = []\<rparr>)
         in case upsertLine item qv (items inventory) of
              None \<Rightarrow> Unfollowed
            | Some ls \<Rightarrow>
                (let inventory = inventory\<lparr>items := ls\<rparr>
                 in if \<not> inventory_valid inventory \<or> dbFails env SaveInventory then Rejects
                    else Completes (db_write InSession (\<lambda>d. d\<lparr>inventories :=
                           (case found of
                              Some k \<Rightarrow> (inventories d)[k := inventory]
                            | None \<Rightarrow> inventories d @ [inventory])\<rparr>) m))))"

text \<open>
  The \<^verbatim>\<open>try\<close> block, lines 405 to 469, on the state of the database and its session.
  \<open>Responded\<close> is a path that sends a response (the four early returns, each after
  \<^verbatim>\<open>abortTransaction\<close> and \<^verbatim>\<open>endSession\<close>, and the success message after
  \<^verbatim>\<open>commitTransaction\<close>); \<open>Threw\<close> is a path on which an awaited operation rejects.
  Every query and every save is given the session.
\<close>

datatype Outcome = Responded BuyResponse | Threw

definition try_block :: "BuyEnv \<Rightarrow> Mongo \<Rightarrow> BuyRequest \<Rightarrow> (Outcome \<times> Mongo) option" where
  "try_block env m req =
     (if dbFails env FindUser then Some (Threw, m)
      else case findIndex (\<lambda>u. uuid u = req_uuid req \<and> userId u = req_userId req)
                  (users (visible InSession m)) of
        None \<Rightarrow> Some (Responded UserNotFound, endSession (abortTransaction m))
      | Some ui \<Rightarrow>
     (if dbFails env FindItem then Some (Threw, m)
      else case findIndex (\<lambda>i. item_name i = req_itemName req) (shop (visible InSession m)) of
        None \<Rightarrow> Some (Responded ItemNotFound, endSession (abortTransaction m))
      | Some ii \<Rightarrow>
     (let user = users (visible InSession m) ! ui;
          item = shop (visible InSession m) ! ii;
          qv = req_quantity req
      in case (if stock item = - 1 then Some False
               else map_option (\<lambda>q. stock item < q) (ToNumber qv)) of
        None \<Rightarrow> None
      | Some True \<Rightarrow> Some (Responded InsufficientStock, endSession (abortTransaction m))
      | Some False \<Rightarrow>
     (case memberRoles env (req_userId req) of
        None \<Rightarrow> Some (Threw, m)
      | Some roles \<Rightarrow>
     (case ToNumber qv of
        None \<Rightarrow> None
      | Some q \<Rightarrow>
     (let dp = discountedPrice (today env) roles (price item)
      in if stars user < dp * q
         then Some (Responded InsufficientStars, endSession (abortTransaction m))
         else if dbFails env SaveUser then Some (Threw, m)
         else
     (let m = db_write InSession
                (\<lambda>d. d\<lparr>users := (users d)[ui := user\<lparr>stars := stars user - dp * q\<rparr>]\<rparr>) m
      in if stock item \<noteq> - 1 \<and> dbFails env SaveItem then Some (Threw, m)
         else
     (let m = (if stock item \<noteq> - 1
               then db_write InSession
                      (\<lambda>d. d\<lparr>shop := (shop d)[ii := item\<lparr>stock := stock item - q\<rparr>]\<rparr>) m
               else m)
      in case saveInventory env m (req_userId req) item qv of
           Unfollowed \<Rightarrow> None
         | Rejects \<Rightarrow> Some (Threw, m)
         | Completes m \<Rightarrow>
             if dbFails env Commit then Some (Threw, m)
             else Some (Responded (Purchased qv (item_name item) (dp * q)),
                        commitTransaction m)))))))))"

section \<open>Server state: the stats cache and the guild member cache\<close>

text \<open>
  The entries of the catalog (lines 260 to 265, 309 to 314 and 338 to 343, the same four
  entries each time) and the entries computed for a user, which spread the definition and
  add \<^verbatim>\<open>progress\<close> and \<^verbatim>\<open>completed\<close>. The descriptions are Cyrillic text in the source and
  are given here in English.
\<close>

record AchievementDefinition =
  ach_name :: string
  description :: string
  target :: "int option"

record UserAchievement = AchievementDefinition +
  progress :: int
  completed :: bool

record ProfileData =
  pd_userStats :: UserStats
  userRankAllTime :: nat
  userRankToday :: nat
  userRankLast7Days :: nat
  userRankLast30Days :: nat
  pd_roles :: "string list"
  pd_achievements :: "UserAchievement list"

datatype JsonBody = ProfileBody ProfileData | AchievementsBody "UserAchievement list"

datatype Response = Json200 JsonBody | NotFound404 | ServerError500

text \<open>
  The time-to-live cache (\<^verbatim>\<open>node-cache\<close>): a key holds a value and the time, in
  milliseconds, at which it expires; an expired key reads as absent.
\<close>

type_synonym NodeCache = "string \<Rightarrow> (JsonBody \<times> int) option"

definition cache_get :: "int \<Rightarrow> NodeCache \<Rightarrow> string \<Rightarrow> JsonBody option" where
  "cache_get now c key =
     (case c key of
        None \<Rightarrow> None
      | Some (v, t) \<Rightarrow> if t < now then None else Some v)"

definition cache_set :: "int \<Rightarrow> NodeCache \<Rightarrow> string \<Rightarrow> JsonBody \<Rightarrow> int \<Rightarrow> NodeCache" where
  "cache_set now c key v ttl = c(key \<mapsto> (v, now + ttl * 1000))"

record GuildMember =
  member_roles :: "string list option"

record ServerState =
  db :: Database
  cache :: NodeCache
  userGuildMemberCache :: "string \<Rightarrow> GuildMember option"

definition allowedRoleIds :: "string list" where
  "allowedRoleIds = [''1043565185509630022'', ''1243243180800082001'', ''1075072592005824563'',
     ''1043614651444899991'', ''1043615386660257872'']"

definition GUILD_ID :: string where
  "GUILD_ID = ''1043562997966188645''"

text \<open>
  Lines 98 to 126. \<open>discord\<close> is the answer of the Discord REST API, \<open>None\<close> when the
  request fails or the response is not ok.
\<close>

definition fetchUserGuildMember ::
  "(string \<Rightarrow> GuildMember option) \<Rightarrow> (string \<Rightarrow> GuildMember option) \<Rightarrow> string
     \<Rightarrow> GuildMember option \<times> (string \<Rightarrow> GuildMember option)" where
  "fetchUserGuildMember discord gcache uid =
     (case gcache uid of
        Some m \<Rightarrow> (Some m, gcache)
      | None \<Rightarrow>
          (case discord uid of
             None \<Rightarrow> (None, gcache)
           | Some data \<Rightarrow> (Some data, gcache(uid \<mapsto> data))))"

text \<open>
  The handler of POST /buy, lines 400 to 477: it starts a session and a transaction on
  the stored database, runs the \<^verbatim>\<open>try\<close> block, aborts the transaction and answers 500 in
  the \<^verbatim>\<open>catch\<close> block, and ends the session in the \<^verbatim>\<open>finally\<close> block. What is stored
  afterwards is the committed data. \<open>None\<close>: the execution is not followed (see
  \<open>ToNumber\<close>). The handler does not mention \<^verbatim>\<open>cache\<close> or \<^verbatim>\<open>userGuildMemberCache\<close>.
\<close>

definition post_buy :: "BuyEnv \<Rightarrow> ServerState \<Rightarrow> BuyRequest \<Rightarrow> (BuyResponse \<times> ServerState) option" where
  "post_buy env st req =
     (let session = startTransaction \<lparr>stored = db st, txn = None\<rparr>
      in case try_block env session req of
           None \<Rightarrow> None
         | Some (Responded response, m) \<Rightarrow> Some (response, st\<lparr>db := stored (endSession m)\<rparr>)
         | Some (Threw, m) \<Rightarrow>
             Some (PurchaseError, st\<lparr>db := stored (endSession (abortTransaction m))\<rparr>))"

section \<open>Rank calculator and achievement evaluator\<close>

text \<open>\<^verbatim>\<open>countDocuments\<close> with a filter, and lines 254 to 257: one more than the count.\<close>

definition countDocuments :: "('a \<Rightarrow> bool) \<Rightarrow> 'a list \<Rightarrow> nat" where
  "countDocuments p docs = length (filter p docs)"

definition userRank :: "(UserStats \<Rightarrow> int) \<Rightarrow> UserStats list \<Rightarrow> UserStats \<Rightarrow> nat" where
  "userRank field docs userStats = countDocuments (\<lambda>d. field userStats < field d) docs + 1"

definition achievements_catalog :: "AchievementDefinition list" where
  "achievements_catalog =
     [\<lparr>ach_name = ''message_master'', description = ''Write 500 messages in 24 hours'',
        target = Some 500\<rparr>,
      \<lparr>ach_name = ''voice_champion'', description = ''Reach top 1 in voice time over 24 hours'',
        target = None\<rparr>,
      \<lparr>ach_name = ''lovebird'', description = ''Create a marriage through the bot'',
        target = None\<rparr>,
      \<lparr>ach_name = ''voice_time_10s'', description = ''Stay 1 hour in a voice channel in a row'',
        target = Some 3600\<rparr>]"

text \<open>
  The callback of \<^verbatim>\<open>achievements.map\<close>, lines 267 to 286 and, word for word, 345 to 364.
  \<^verbatim>\<open>Math.floor\<close> of the quotient is the integer quotient, which rounds down.
\<close>

definition evalAchievement :: "UserStats \<Rightarrow> AchievementDefinition \<Rightarrow> UserAchievement" where
  "evalAchievement userStats achievement =
     (let some = list_ex (\<lambda>a. a_name a = ach_name achievement \<and> a_completed a)
                   (achievements userStats);
          prog = (if ach_name achievement = ''message_master'' then messagesToday userStats
                  else if ach_name achievement = ''voice_time_10s'' then voiceTime userStats div 1000
                  else 0)
      in \<lparr>ach_name = ach_name achievement, description = description achievement,
          target = target achievement, progress = prog, completed = some\<rparr>)"

definition userAchievements :: "UserStats \<Rightarrow> UserAchievement list" where
  "userAchievements userStats = map (evalAchievement userStats) achievements_catalog"

section \<open>GET /profile/:uuid and GET /achievements/:uuid\<close>

record ReadEnv =
  now :: int
  discord :: "string \<Rightarrow> GuildMember option"

definition profileData :: "UserStats list \<Rightarrow> UserStats \<Rightarrow> string list \<Rightarrow> ProfileData" where
  "profileData docs userStats userRolesIds =
     \<lparr>pd_userStats = userStats,
      userRankAllTime = userRank totalMessages docs userStats,
      userRankToday = userRank messagesToday docs userStats,
      userRankLast7Days = userRank messagesLast7Days docs userStats,
      userRankLast30Days = userRank messagesLast30Days docs userStats,
      pd_roles = userRolesIds,
      pd_achievements = userAchievements userStats\<rparr>"

definition get_profile :: "ReadEnv \<Rightarrow> ServerState \<Rightarrow> string \<Rightarrow> Response \<times> ServerState" where
  "get_profile env st uuid_param =
     (let cacheKey = ''profile_'' @ uuid_param
      in case cache_get (now env) (cache st) cacheKey of
        Some cachedProfile \<Rightarrow> (Json200 cachedProfile, st)
      | None \<Rightarrow>
     (case findIndex (\<lambda>u. uuid u = uuid_param) (users (db st)) of
        None \<Rightarrow> (NotFound404, st)
      | Some i \<Rightarrow>
     (let userStats = users (db st) ! i;
          (userGuildMember, gcache) =
             fetchUserGuildMember (discord env) (userGuildMemberCache st) (userId userStats);
          st = st\<lparr>userGuildMemberCache := gcache\<rparr>
      in case userGuildMember of
        None \<Rightarrow> (ServerError500, st)
      | Some m \<Rightarrow>
     (let userRolesIds = (case member_roles m of None \<Rightarrow> [] | Some rs \<Rightarrow> rs);
          body = ProfileBody (profileData (users (db st)) userStats userRolesIds)
      in (Json200 body, st\<lparr>cache := cache_set (now env) (cache st) cacheKey body 300\<rparr>)))))"

definition get_achievements :: "ReadEnv \<Rightarrow> ServerState \<Rightarrow> string \<Rightarrow> Response \<times> ServerState" where
  "get_achievements env st uuid_param =
     (let cacheKey = ''achievements_'' @ uuid_param
      in case cache_get (now env) (cache st) cacheKey of
        Some cachedAchievements \<Rightarrow> (Json200 cachedAchievements, st)
      | None \<Rightarrow>
     (case findIndex (\<lambda>u. uuid u = uuid_param) (users (db st)) of
        None \<Rightarrow> (NotFound404, st)
      | Some i \<Rightarrow>
     (let body = AchievementsBody (userAchievements (users (db st) ! i))
      in (Json200 body, st\<lparr>cache := cache_set (now env) (cache st) cacheKey body 300\<rparr>))))"

text \<open>GET /shop: the whole item collection, read from the database on every request.\<close>

definition get_shop :: "ServerState \<Rightarrow> Item list" where
  "get_shop st = shop (db st)"

section \<open>Identity bridge: the verify callback of the Discord strategy\<close>

record DiscordProfile =
  profile_id :: string
  profile_username :: string
  profile_avatar :: string

text \<open>
  \<open>newCommandStats\<close> stands for the document that \<^verbatim>\<open>new CommandStats\<close> builds from the
  schema's defaults; the schema is not part of the sources at hand.
\<close>

record LoginEnv =
  login_now :: int
  login_discord :: "string \<Rightarrow> GuildMember option"
  newCommandStats :: UserStats

text \<open>
  Lines 165 to 169: the loop over the allow-list, writing into the object that starts
  empty at line 162. Assigning a property replaces the value of a key that is present and
  appends the key otherwise.
\<close>

fun roleDatesLoop :: "string list \<Rightarrow> string list \<Rightarrow> int \<Rightarrow> (string \<times> int) list \<Rightarrow> (string \<times> int) list" where
  "roleDatesLoop [] userRolesIds t acc = acc"
| "roleDatesLoop (allowedRoleId # rest) userRolesIds t acc =
     roleDatesLoop rest userRolesIds t
       (if allowedRoleId \<in> set userRolesIds then AList.update allowedRoleId t acc else acc)"

text \<open>
  Lines 134 to 180. \<open>Inl ()\<close> is \<^verbatim>\<open>done(err)\<close>, \<open>Inr user\<close> is \<^verbatim>\<open>done(null, user)\<close>.
  \<^verbatim>\<open>updateOne\<close> with \<^verbatim>\<open>upsert\<close> writes the document over the one the filter finds, or
  inserts it.
\<close>

definition verify :: "LoginEnv \<Rightarrow> ServerState \<Rightarrow> DiscordProfile \<Rightarrow> (unit + UserStats) \<times> ServerState" where
  "verify env st profile =
     (let found = findIndex (\<lambda>u. userId u = profile_id profile \<and> serverId u = GUILD_ID)
                    (users (db st));
          user = (case found of
                    None \<Rightarrow> (newCommandStats env)
                      \<lparr>userId := profile_id profile, serverId := GUILD_ID,
                       username := profile_username profile, userAvatar := profile_avatar profile,
                       roleAcquisitionDates := []\<rparr>
                  | Some i \<Rightarrow> (users (db st) ! i)
                      \<lparr>username := profile_username profile, userAvatar := profile_avatar profile\<rparr>);
          (userGuildMember, gcache) =
             fetchUserGuildMember (login_discord env) (userGuildMemberCache st) (profile_id profile);
          st = st\<lparr>userGuildMemberCache := gcache\<rparr>
      in case userGuildMember of
        None \<Rightarrow> (Inl (), st)
      | Some m \<Rightarrow>
     (case member_roles m of
        None \<Rightarrow> (Inl (), st)
      | Some userRolesIds \<Rightarrow>
     (let user = user\<lparr>roleAcquisitionDates :=
                   roleDatesLoop allowedRoleIds userRolesIds (login_now env) []\<rparr>;
          docs = (case found of
                    Some i \<Rightarrow> (users (db st))[i := user]
                  | None \<Rightarrow> users (db st) @ [user])
      in (Inr user, st\<lparr>db := (db st)\<lparr>users := docs\<rparr>\<rparr>))))"

section \<open>The browser client: shop view and purchase flow\<close>

text \<open>
  Lines 462 to 472 of the client script in \<^verbatim>\<open>src/inventory.js\<close>: the price shown for an
  item. The role discount is applied and rounded, then the weekend discount is applied to
  that result and rounded again.
\<close>

definition displayShopData_discountedPrice :: "weekday \<Rightarrow> string list \<Rightarrow> rat \<Rightarrow> rat" where
  "displayShopData_discountedPrice day roles originalPrice =
     (let isWeekend = (getDay day = 6 \<or> getDay day = 0);
          hasDiscountRole = (''1260383669839724634'' \<in> set roles);
          discountedPrice = originalPrice;
          discountedPrice = (if hasDiscountRole
                             then of_int (Math_round (fl (originalPrice * fl (1 - fl (20 / 100)))))
                             else discountedPrice);
          discountedPrice = (if isWeekend
                             then of_int (Math_round (fl (discountedPrice * fl (1 - fl (5 / 100)))))
                             else discountedPrice)
      in discountedPrice)"

text \<open>
  The client's two in-memory caches. \<open>None\<close> is \<^verbatim>\<open>null\<close> or a missing key. The model
  follows the cache effects of the client functions and leaves the rendering out; the
  requests go to the server model above.
\<close>

record ClientState =
  cachedProfileData :: "string \<Rightarrow> JsonBody option"
  shopDataCache :: "Item list option"

definition fetchProfileData ::
  "ReadEnv \<Rightarrow> ClientState \<times> ServerState \<Rightarrow> string \<Rightarrow> JsonBody option \<times> ClientState \<times> ServerState" where
  "fetchProfileData env cs_st uuid_param =
     (let (cs, st) = cs_st
      in case cachedProfileData cs uuid_param of
        Some data \<Rightarrow> (Some data, cs, st)
      | None \<Rightarrow>
     (let (response, st) = get_profile env st uuid_param
      in case response of
        Json200 data \<Rightarrow>
          (Some data, cs\<lparr>cachedProfileData := (cachedProfileData cs)(uuid_param \<mapsto> data)\<rparr>, st)
      | NotFound404 \<Rightarrow> (None, cs, st)
      | ServerError500 \<Rightarrow> (None, cs, st)))"

definition fetchShopData :: "ClientState \<times> ServerState \<Rightarrow> Item list \<times> ClientState" where
  "fetchShopData cs_st =
     (let (cs, st) = cs_st
      in case shopDataCache cs of
        Some data \<Rightarrow> (data, cs)
      | None \<Rightarrow> (let data = get_shop st in (data, cs\<lparr>shopDataCache := Some data\<rparr>)))"

definition displayShopData :: "ReadEnv \<Rightarrow> ClientState \<times> ServerState \<Rightarrow> string \<Rightarrow> ClientState \<times> ServerState" where
  "displayShopData env cs_st uuid_param =
     (if uuid_param = [] then cs_st
      else
        (let (shopData, cs) = fetchShopData cs_st;
             (profile, cs, st) = fetchProfileData env (cs, snd cs_st) uuid_param
         in (cs, st)))"

text \<open>
  Lines 549 to 590, for a client that has the user identifier in its local storage. The
  quantity is the number kept by the shop view's counter. \<open>benv\<close> is the server's
  environment while it handles the purchase, \<open>renv\<close> while it handles the reads that
  follow.
\<close>

definition buyItem ::
  "BuyEnv \<Rightarrow> ReadEnv \<Rightarrow> string \<Rightarrow> ClientState \<times> ServerState \<Rightarrow> string \<Rightarrow> string \<Rightarrow> int
     \<Rightarrow> (ClientState \<times> ServerState) option" where
  "buyItem benv renv stored_userId cs_st uuid_param itemName_param quantity_param =
     (let (cs, st) = cs_st
      in case post_buy benv st
             \<lparr>req_uuid = uuid_param, req_userId = stored_userId,
              req_itemName = itemName_param, req_quantity = JsNumber quantity_param\<rparr> of
           None \<Rightarrow> None
         | Some (response, st) \<Rightarrow>
             if buy_status response \<noteq> 200 then Some (cs, st)
             else
               (let cs = cs\<lparr>cachedProfileData := (cachedProfileData cs)(uuid_param := None)\<rparr>;
                    (updatedProfileData, cs, st) = fetchProfileData renv (cs, st) uuid_param;
                    cs = cs\<lparr>shopDataCache := None\<rparr>
                in Some (displayShopData renv (cs, st) uuid_param)))"

section \<open>Notions used to state the properties\<close>

text \<open>
  The document a query finds, and the readings the properties speak of: the user named by
  a request, the item of a given name, a user's inventory and its line for an item.
\<close>

definition findOne :: "('a \<Rightarrow> bool) \<Rightarrow> 'a list \<Rightarrow> 'a option" where
  "findOne p xs = map_option (\<lambda>i. xs ! i) (findIndex p xs)"

definition userOf :: "Database \<Rightarrow> string \<Rightarrow> string \<Rightarrow> UserStats option" where
  "userOf d u_id uid = findOne (\<lambda>u. uuid u = u_id \<and> userId u = uid) (users d)"

definition itemOf :: "Database \<Rightarrow> string \<Rightarrow> Item option" where
  "itemOf d nm = findOne (\<lambda>i. item_name i = nm) (shop d)"

definition inventoryOf :: "Database \<Rightarrow> string \<Rightarrow> Inventory option" where
  "inventoryOf d uid = findOne (\<lambda>x. inv_userId x = uid) (inventories d)"

definition lineOf :: "Inventory \<Rightarrow> string \<Rightarrow> InventoryLine option" where
  "lineOf d iid = findOne (\<lambda>l. itemId l = iid) (items d)"

text \<open>
  The discount as the specification words it: the percentages of the weekend and of the
  discount role are added, and the scaled price is rounded to the nearest integer, a tie
  going up.
\<close>

definition totalPercent :: "weekday \<Rightarrow> string list \<Rightarrow> int" where
  "totalPercent day roles =
     0 + (if day = Saturday \<or> day = Sunday then 5 else 0)
       + (if ''1260383669839724634'' \<in> set roles then 20 else 0)"

definition round_half_up :: "rat \<Rightarrow> int \<Rightarrow> bool" where
  "round_half_up x n = (of_int n - 1 / 2 \<le> x \<and> x < of_int n + 1 / 2)"

text \<open>
  The factor that line 439 multiplies the price by, as a double, and its value for a total
  of 5 and of 20 percent: the doubles nearest to 0.95 and to 0.8, the first below and the
  second above the decimal value.
\<close>

definition factor :: "int \<Rightarrow> rat" where
  "factor pct = fl (1 - fl (of_int pct / 100))"

definition c5 :: rat where
  "c5 = 4278419646001971 / 4503599627370496"

definition c20 :: rat where
  "c20 = 3602879701896397 / 4503599627370496"

section \<open>Example data\<close>

definition ex_user :: UserStats where
  "ex_user = \<lparr>uuid = ''uuid-1'', userId = ''1001'', serverId = GUILD_ID, username = ''anna'',
     userAvatar = ''a1'', totalMessages = 10, messagesToday = 3, messagesLast7Days = 7,
     messagesLast30Days = 10, voiceTime = 5000, stars = 500, achievements = [],
     roleAcquisitionDates = [(''1043565185509630022'', 100)]\<rparr>"

definition ex_sword :: Item where
  "ex_sword = \<lparr>item_id = ''65f1a0'', item_name = ''sword'', price = 100, stock = 5\<rparr>"

definition ex_potion :: Item where
  "ex_potion = \<lparr>item_id = ''65f1a1'', item_name = ''potion'', price = 33, stock = - 1\<rparr>"

definition ex_inventory :: Inventory where
  "ex_inventory = \<lparr>inv_userId = ''1001'', guildId = Some GUILD_ID, items = []\<rparr>"

definition ex_state :: "Inventory list \<Rightarrow> ServerState" where
  "ex_state invs =
     \<lparr>db = \<lparr>users = [ex_user], shop = [ex_sword, ex_potion], inventories = invs\<rparr>,
      cache = (\<lambda>k. None), userGuildMemberCache = (\<lambda>k. None)\<rparr>"

definition ex_env :: BuyEnv where
  "ex_env = \<lparr>today = Saturday, memberRoles = (\<lambda>u. Some [''1260383669839724634'']),
     dbFails = (\<lambda>x. False)\<rparr>"

definition ex_request :: "string \<Rightarrow> JsValue \<Rightarrow> BuyRequest" where
  "ex_request nm qv =
     \<lparr>req_uuid = ''uuid-1'', req_userId = ''1001'', req_itemName = nm, req_quantity = qv\<rparr>"

text \<open>An inventory of the example user that holds one sword.\<close>

definition ex_inventory_sword :: Inventory where
  "ex_inventory_sword = ex_inventory
     \<lparr>items := [\<lparr>itemId = ''65f1a0'', itemName = ''sword'', quantity = 1\<rparr>]\<rparr>"

text \<open>
  Three users whose all-time message counts are 10, 10 and 5, a server state holding them,
  and the environment of a read at time 1000.
\<close>

definition ex_ranking :: "UserStats list" where
  "ex_ranking =
     [ex_user,
      ex_user\<lparr>uuid := ''uuid-2'', userId := ''1002''\<rparr>,
      ex_user\<lparr>uuid := ''uuid-3'', userId := ''1003'', totalMessages := 5\<rparr>]"

definition ex_read_env :: ReadEnv where
  "ex_read_env = \<lparr>now = 1000, discord = (\<lambda>u. Some \<lparr>member_roles = Some []\<rparr>)\<rparr>"

definition ex_rank_state :: ServerState where
  "ex_rank_state =
     \<lparr>db = \<lparr>users = ex_ranking, shop = [], inventories = []\<rparr>,
      cache = (\<lambda>k. None), userGuildMemberCache = (\<lambda>k. None)\<rparr>"

text \<open>A login of the example user at time 200, holding the first allow-listed role.\<close>

definition ex_login_env :: LoginEnv where
  "ex_login_env = \<lparr>login_now = 200,
     login_discord = (\<lambda>u. Some \<lparr>member_roles = Some [''1043565185509630022'']\<rparr>),
     newCommandStats = ex_user\<rparr>"

definition ex_profile :: DiscordProfile where
  "ex_profile = \<lparr>profile_id = ''1001'', profile_username = ''anna'', profile_avatar = ''a2''\<rparr>"

text \<open>
  The server state after the example user's profile was read (and cached) at time 1000,
  and a client whose caches are empty.
\<close>

definition ex_cached_state :: ServerState where
  "ex_cached_state = snd (get_profile ex_read_env (ex_state [ex_inventory]) ''uuid-1'')"

definition ex_client :: ClientState where
  "ex_client = \<lparr>cachedProfileData = (\<lambda>k. None), shopDataCache = None\<rparr>"

section \<open>Searching and updating a collection\<close>

lemma findIndex_Some: "findIndex p xs = Some i \<Longrightarrow> i < length xs \<and> p (xs ! i)"
  by (induction xs arbitrary: i) (auto split: if_splits)

lemma findIndex_update:
  "(k < length xs \<Longrightarrow> p y = p (xs ! k)) \<Longrightarrow> findIndex p (xs[k := y]) = findIndex p xs"
proof (induction xs arbitrary: k)
  case Nil
  then show ?case by simp
next
  case (Cons x xs)
  show ?case
  proof (cases k)
    case 0
    with Cons.prems show ?thesis by simp
  next
    case (Suc j)
    with Cons.prems have "j < length xs \<Longrightarrow> p y = p (xs ! j)" by simp
    then have "findIndex p (xs[j := y]) = findIndex p xs" by (rule Cons.IH)
    with Suc show ?thesis by simp
  qed
qed

lemma findIndex_append_None:
  "findIndex p xs = None \<Longrightarrow> findIndex p (xs @ [y]) = (if p y then Some (length xs) else None)"
  by (induction xs) (auto split: if_splits)

lemma findOne_update_at:
  "findIndex p xs = Some i \<Longrightarrow> p y \<Longrightarrow> findOne p (xs[i := y]) = Some y"
proof -
  assume f: "findIndex p xs = Some i" and py: "p y"
  from f have i: "i < length xs" and pi: "p (xs ! i)" by (auto dest: findIndex_Some)
  from py pi have "findIndex p (xs[i := y]) = findIndex p xs" by (intro findIndex_update) simp
  with f i show ?thesis by (simp add: findOne_def)
qed

lemmas mongo_defs = db_write_def visible_def abortTransaction_def endSession_def
  commitTransaction_def startTransaction_def


lemma try_block_PurchasedE:
  assumes "txn m = Some v"
    and "try_block env m req = Some (Responded (Purchased qv n t), m')"
  obtains ui ii k roles q ls where
     "findIndex (\<lambda>u. uuid u = req_uuid req \<and> userId u = req_userId req) (users v) = Some ui"
     "findIndex (\<lambda>i. item_name i = req_itemName req) (shop v) = Some ii"
     "memberRoles env (req_userId req) = Some roles"
     "findIndex (\<lambda>d. inv_userId d = req_userId req) (inventories v) = Some k"
     "qv = req_quantity req" "ToNumber qv = Some q"
     "\<not> (stock (shop v ! ii) \<noteq> - 1 \<and> stock (shop v ! ii) < q)"
     "\<not> stars (users v ! ui) < discountedPrice (today env) roles (price (shop v ! ii)) * q"
     "n = item_name (shop v ! ii)"
     "t = discountedPrice (today env) roles (price (shop v ! ii)) * q"
     "upsertLine (shop v ! ii) qv (items (inventories v ! k)) = Some ls"
     "inventory_valid ((inventories v ! k)\<lparr>items := ls\<rparr>)"
     "users (stored m') = (users v)[ui := (users v ! ui)\<lparr>stars := stars (users v ! ui)
                   - discountedPrice (today env) roles (price (shop v ! ii)) * q\<rparr>]"
     "shop (stored m') = (if stock (shop v ! ii) \<noteq> - 1
                 then (shop v)[ii := (shop v ! ii)\<lparr>stock := stock (shop v ! ii) - q\<rparr>]
                 else shop v)"
     "inventories (stored m') = (inventories v)[k := (inventories v ! k)\<lparr>items := ls\<rparr>]"
  using assms unfolding try_block_def saveInventory_def mongo_defs Let_def
  by (auto split: if_splits option.splits attempt.splits bool.splits
      simp: inventory_valid_def required_def)

section \<open>The paths of the purchase\<close>

text \<open>
  What the \<^verbatim>\<open>try\<close> block leaves in the database on each of its paths, for a session
  whose transaction has been started: on every path but the committing one the committed
  data are untouched, the writes being in the transaction's view only; on the committing
  path the three documents are as the elimination rule below lists them.
\<close>

lemma upsertLine_lineOf:
  assumes "upsertLine item qv ls = Some ls'"
  shows "case findOne (\<lambda>l. itemId l = item_id item) ls of
           Some l \<Rightarrow> (\<exists>k. plusAssignQuantity (quantity l) qv = Some k
                        \<and> findOne (\<lambda>l. itemId l = item_id item) ls' = Some (l\<lparr>quantity := k\<rparr>)
                        \<and> length ls' = length ls)
         | None \<Rightarrow> (\<exists>k. castQuantity qv = Some k
                       \<and> ls' = ls @ [\<lparr>itemId = item_id item, itemName = item_name item, quantity = k\<rparr>])"
proof (cases "findIndex (\<lambda>l. itemId l = item_id item) ls")
  case None
  with assms show ?thesis
    by (auto simp: upsertLine_def findOne_def)
next
  case (Some i)
  then have pi: "itemId (ls ! i) = item_id item"
    by (auto dest: findIndex_Some)
  from assms Some obtain k where k: "plusAssignQuantity (quantity (ls ! i)) qv = Some k"
    and ls': "ls' = ls[i := (ls ! i)\<lparr>quantity := k\<rparr>]"
    by (auto simp: upsertLine_def)
  have "findOne (\<lambda>l. itemId l = item_id item) (ls[i := (ls ! i)\<lparr>quantity := k\<rparr>])
          = Some ((ls ! i)\<lparr>quantity := k\<rparr>)"
    using Some pi by (intro findOne_update_at) simp_all
  with Some k ls' show ?thesis by (simp add: findOne_def)
qed

lemma session_start:
  "txn (startTransaction \<lparr>stored = d, txn = None\<rparr>) = Some d"
  "stored (startTransaction \<lparr>stored = d, txn = None\<rparr>) = d"
  by (simp_all add: startTransaction_def)


lemma post_buy_PurchasedE:
  assumes "post_buy env st req = Some (Purchased qv n t, st')"
  obtains m' where
    "try_block env (startTransaction \<lparr>stored = db st, txn = None\<rparr>) req
       = Some (Responded (Purchased qv n t), m')"
    "st' = st\<lparr>db := stored m'\<rparr>"
proof -
  let ?m = "startTransaction \<lparr>stored = db st, txn = None\<rparr>"
  from assms obtain out m' where tb: "try_block env ?m req = Some (out, m')"
    by (auto simp: post_buy_def Let_def split: option.splits)
  show ?thesis
  proof (cases out)
    case (Responded r')
    with assms tb have "r' = Purchased qv n t" and "st' = st\<lparr>db := stored (endSession m')\<rparr>"
      by (simp_all add: post_buy_def Let_def)
    with Responded tb that show ?thesis by (simp add: endSession_def)
  next
    case Threw
    with assms tb show ?thesis by (simp add: post_buy_def Let_def)
  qed
qed

lemma post_buy_frame:
  assumes "post_buy env st req = Some (r, st')"
  shows "cache st' = cache st \<and> userGuildMemberCache st' = userGuildMemberCache st"
  using assms
  by (auto simp: post_buy_def Let_def split: option.splits Outcome.splits)

lemma post_buy_effects:
  assumes "post_buy env st req = Some (Purchased qv n t, st')"
  shows "\<exists>user item roles inventory inventory' q.
     userOf (db st) (req_uuid req) (req_userId req) = Some user \<and>
     itemOf (db st) (req_itemName req) = Some item \<and>
     memberRoles env (req_userId req) = Some roles \<and>
     inventoryOf (db st) (req_userId req) = Some inventory \<and>
     qv = req_quantity req \<and> ToNumber qv = Some q \<and>
     n = item_name item \<and>
     t = discountedPrice (today env) roles (price item) * q \<and>
     \<not> (stock item \<noteq> - 1 \<and> stock item < q) \<and>
     \<not> stars user < discountedPrice (today env) roles (price item) * q \<and>
     map_option stars (userOf (db st') (req_uuid req) (req_userId req))
       = Some (stars user - discountedPrice (today env) roles (price item) * q) \<and>
     map_option stock (itemOf (db st') (req_itemName req))
       = Some (if stock item = - 1 then - 1 else stock item - q) \<and>
     inventoryOf (db st') (req_userId req) = Some inventory' \<and>
     (case lineOf inventory (item_id item) of
        Some l \<Rightarrow> (\<exists>k. plusAssignQuantity (quantity l) qv = Some k
                     \<and> lineOf inventory' (item_id item) = Some (l\<lparr>quantity := k\<rparr>)
                     \<and> length (items inventory') = length (items inventory))
      | None \<Rightarrow> (\<exists>k. castQuantity qv = Some k
                    \<and> items inventory' = items inventory
                         @ [\<lparr>itemId = item_id item, itemName = item_name item, quantity = k\<rparr>]))"
proof -
  from assms obtain m' where
    tb: "try_block env (startTransaction \<lparr>stored = db st, txn = None\<rparr>) req
       = Some (Responded (Purchased qv n t), m')"
    and st': "st' = st\<lparr>db := stored m'\<rparr>"
    by (rule post_buy_PurchasedE)
  from session_start(1) tb obtain ui ii k roles q ls where
    fu: "findIndex (\<lambda>u. uuid u = req_uuid req \<and> userId u = req_userId req) (users (db st)) = Some ui" and
    fi: "findIndex (\<lambda>i. item_name i = req_itemName req) (shop (db st)) = Some ii" and
    ro: "memberRoles env (req_userId req) = Some roles" and
    fk: "findIndex (\<lambda>d. inv_userId d = req_userId req) (inventories (db st)) = Some k" and
    qv: "qv = req_quantity req" and tn: "ToNumber qv = Some q" and
    g1: "\<not> (stock (shop (db st) ! ii) \<noteq> - 1 \<and> stock (shop (db st) ! ii) < q)" and
    g2: "\<not> stars (users (db st) ! ui)
           < discountedPrice (today env) roles (price (shop (db st) ! ii)) * q" and
    n: "n = item_name (shop (db st) ! ii)" and
    t: "t = discountedPrice (today env) roles (price (shop (db st) ! ii)) * q" and
    up: "upsertLine (shop (db st) ! ii) qv (items (inventories (db st) ! k)) = Some ls" and
    us: "users (stored m') = (users (db st))[ui := (users (db st) ! ui)\<lparr>stars := stars (users (db st) ! ui)
                   - discountedPrice (today env) roles (price (shop (db st) ! ii)) * q\<rparr>]" and
    sh: "shop (stored m') = (if stock (shop (db st) ! ii) \<noteq> - 1
                 then (shop (db st))[ii := (shop (db st) ! ii)\<lparr>stock := stock (shop (db st) ! ii) - q\<rparr>]
                 else shop (db st))" and
    iv: "inventories (stored m') = (inventories (db st))[k := (inventories (db st) ! k)\<lparr>items := ls\<rparr>]"
    by (rule try_block_PurchasedE)
  let ?user = "users (db st) ! ui" and ?item = "shop (db st) ! ii" and ?inv = "inventories (db st) ! k"
  let ?inv' = "?inv\<lparr>items := ls\<rparr>"
  have d': "db st' = stored m'" by (simp add: st')
  from fu have pu: "uuid ?user = req_uuid req \<and> userId ?user = req_userId req"
    by (auto dest: findIndex_Some)
  from fi have pi: "item_name ?item = req_itemName req"
    by (auto dest: findIndex_Some)
  from fk have pk: "inv_userId ?inv = req_userId req" by (auto dest: findIndex_Some)
  have 1: "userOf (db st) (req_uuid req) (req_userId req) = Some ?user"
    using fu by (simp add: userOf_def findOne_def)
  have 2: "itemOf (db st) (req_itemName req) = Some ?item"
    using fi by (simp add: itemOf_def findOne_def)
  have 3: "inventoryOf (db st) (req_userId req) = Some ?inv"
    using fk by (simp add: inventoryOf_def findOne_def)
  have 4: "map_option stars (userOf (db st') (req_uuid req) (req_userId req))
       = Some (stars ?user - discountedPrice (today env) roles (price ?item) * q)"
    unfolding userOf_def d' us using pu
    by (subst findOne_update_at [OF fu]) simp_all
  have 5: "map_option stock (itemOf (db st') (req_itemName req))
       = Some (if stock ?item = - 1 then - 1 else stock ?item - q)"
  proof (cases "stock ?item = - 1")
    case True
    with sh fi show ?thesis by (simp add: itemOf_def d' findOne_def)
  next
    case False
    with sh have "shop (stored m') = (shop (db st))[ii := ?item\<lparr>stock := stock ?item - q\<rparr>]"
      by simp
    then show ?thesis unfolding itemOf_def d' using pi False
      by (simp add: findOne_update_at [OF fi])
  qed
  have 6: "inventoryOf (db st') (req_userId req) = Some ?inv'"
    unfolding inventoryOf_def d' iv using pk
    by (subst findOne_update_at [OF fk]) simp_all
  have 7: "(case lineOf ?inv (item_id ?item) of
        Some l \<Rightarrow> (\<exists>k. plusAssignQuantity (quantity l) qv = Some k
                     \<and> lineOf ?inv' (item_id ?item) = Some (l\<lparr>quantity := k\<rparr>)
                     \<and> length (items ?inv') = length (items ?inv))
      | None \<Rightarrow> (\<exists>k. castQuantity qv = Some k
                    \<and> items ?inv' = items ?inv
                         @ [\<lparr>itemId = item_id ?item, itemName = item_name ?item, quantity = k\<rparr>]))"
    using upsertLine_lineOf [OF up] by (auto simp: lineOf_def split: option.splits)
  from 1 2 ro 3 qv tn n t g1 g2 4 5 6 7 show ?thesis by blast
qed

lemma try_block_number_followed:
  assumes "req_quantity req = JsNumber q"
  shows "try_block env m req \<noteq> None"
  using assms unfolding try_block_def saveInventory_def upsertLine_def Let_def
  by (auto split: if_splits option.splits attempt.splits bool.splits)

lemma post_buy_number_followed:
  assumes "req_quantity req = JsNumber q"
  shows "post_buy env st req \<noteq> None"
  using try_block_number_followed [OF assms, of env "startTransaction \<lparr>stored = db st, txn = None\<rparr>"]
  by (auto simp: post_buy_def Let_def split: option.splits Outcome.splits)

lemma try_block_commits:
  assumes tx: "txn m = Some v"
    and fu: "findIndex (\<lambda>u. uuid u = req_uuid req \<and> userId u = req_userId req) (users v) = Some ui"
    and fi: "findIndex (\<lambda>i. item_name i = req_itemName req) (shop v) = Some ii"
    and ro: "memberRoles env (req_userId req) = Some roles"
    and fk: "findIndex (\<lambda>d. inv_userId d = req_userId req) (inventories v) = Some k"
    and nf: "\<forall>x. \<not> dbFails env x"
    and tn: "ToNumber (req_quantity req) = Some q"
    and g1: "\<not> (stock (shop v ! ii) \<noteq> - 1 \<and> stock (shop v ! ii) < q)"
    and g2: "\<not> stars (users v ! ui) < discountedPrice (today env) roles (price (shop v ! ii)) * q"
    and up: "upsertLine (shop v ! ii) (req_quantity req) (items (inventories v ! k)) = Some ls"
    and va: "inventory_valid ((inventories v ! k)\<lparr>items := ls\<rparr>)"
  shows "\<exists>m'. try_block env m req =
     Some (Responded (Purchased (req_quantity req) (item_name (shop v ! ii))
            (discountedPrice (today env) roles (price (shop v ! ii)) * q)), m')"
  using assms unfolding try_block_def saveInventory_def mongo_defs Let_def
  by (auto split: option.splits)

section \<open>Double-precision rounding and the discount\<close>

text \<open>
  The error of rounding to a double, and its effect on line 439. For a price that is a
  whole number of at most \<open>10^14\<close> the product with the factor, rounded to a double, lies
  on the same side of every half-integer as the exact product with the decimal factor, so
  \<^verbatim>\<open>Math.round\<close> gives the same integer; where the exact product is a half-integer, a
  total of 5 percent being the only such case, the double product is a multiple of a
  quarter just below it or the half-integer itself, as the case analysis shows.
\<close>

lemma pow2_powi: "pow2 k = 2 powi k"
  by (simp add: pow2_def power_int_def inverse_eq_divide power_one_over)

lemma pow2_pos: "0 < pow2 k"
  by (simp add: pow2_powi)

lemma pow2_diff: "pow2 (k - m) = pow2 k / pow2 m"
  by (simp add: pow2_powi power_int_diff)

lemma pow2_52: "pow2 52 = 4503599627370496"
  by (simp add: pow2_def)

lemma pow2_Suc: "pow2 (k + 1) = 2 * pow2 k"
  by (simp add: pow2_powi power_int_add)

lemma ilog2_bounds:
  "1 \<le> n \<Longrightarrow> 0 \<le> ilog2 n \<and> 2 ^ nat (ilog2 n) \<le> n \<and> n < 2 * 2 ^ nat (ilog2 n)"
proof (induction n rule: ilog2.induct)
  case (1 n)
  show ?case
  proof (cases "n < 2")
    case True
    with "1.prems" have "n = 1" by simp
    then show ?thesis by (simp add: ilog2.simps)
  next
    case False
    then have h: "1 \<le> n div 2" by simp
    from "1.IH" [OF False h] have ih: "0 \<le> ilog2 (n div 2)"
      "2 ^ nat (ilog2 (n div 2)) \<le> n div 2" "n div 2 < 2 * 2 ^ nat (ilog2 (n div 2))"
      by simp_all
    from False have eq: "ilog2 n = ilog2 (n div 2) + 1" by (subst ilog2.simps) simp
    from ih(1) have p: "(2::int) ^ nat (ilog2 (n div 2) + 1) = 2 * 2 ^ nat (ilog2 (n div 2))"
      by (simp add: nat_add_distrib)
    from ih(2) have a: "2 * 2 ^ nat (ilog2 (n div 2)) \<le> n" by linarith
    from ih(3) have b: "n < 2 * (2 * 2 ^ nat (ilog2 (n div 2)))" by linarith
    from ih(1) a b show ?thesis by (simp add: eq p)
  qed
qed

lemma exponent_bounds:
  assumes "1 \<le> x"
  shows "0 \<le> exponent x" and "pow2 (exponent x) \<le> x" and "x < 2 * pow2 (exponent x)"
proof -
  from assms have n: "1 \<le> \<lfloor>x\<rfloor>" by simp
  from assms have e: "exponent x = ilog2 \<lfloor>x\<rfloor>" by (simp add: exponent_def)
  from ilog2_bounds [OF n] have 0: "0 \<le> ilog2 \<lfloor>x\<rfloor>"
    and 1: "2 ^ nat (ilog2 \<lfloor>x\<rfloor>) \<le> \<lfloor>x\<rfloor>" and 2: "\<lfloor>x\<rfloor> < 2 * 2 ^ nat (ilog2 \<lfloor>x\<rfloor>)"
    by simp_all
  from 0 show "0 \<le> exponent x" by (simp add: e)
  from 0 have p: "pow2 (exponent x) = of_int (2 ^ nat (ilog2 \<lfloor>x\<rfloor>))" by (simp add: e pow2_def)
  from 1 have "(of_int (2 ^ nat (ilog2 \<lfloor>x\<rfloor>)) :: rat) \<le> of_int \<lfloor>x\<rfloor>"
    by (simp only: of_int_le_iff)
  also have "\<dots> \<le> x" by simp
  finally show "pow2 (exponent x) \<le> x" by (simp only: p)
  from 2 have "\<lfloor>x\<rfloor> + 1 \<le> 2 * 2 ^ nat (ilog2 \<lfloor>x\<rfloor>)" by simp
  then have "(of_int (\<lfloor>x\<rfloor> + 1) :: rat) \<le> of_int (2 * 2 ^ nat (ilog2 \<lfloor>x\<rfloor>))"
    by (simp only: of_int_le_iff)
  moreover have "x < of_int (\<lfloor>x\<rfloor> + 1)" using floor_correct [of x] by simp
  ultimately have "x < of_int (2 * 2 ^ nat (ilog2 \<lfloor>x\<rfloor>))" by simp
  then show "x < 2 * pow2 (exponent x)" by (simp add: p)
qed

lemma round_ties_even_near:
  assumes "\<bar>y - of_int k\<bar> < 1 / 2"
  shows "round_ties_even y = k"
proof -
  from assms have a: "of_int k - 1 / 2 < y" and b: "y < of_int k + 1 / 2" by linarith+
  show ?thesis
  proof (cases "of_int k \<le> y")
    case True
    with b have "\<lfloor>y\<rfloor> = k" by (intro floor_unique) simp_all
    with b show ?thesis by (simp add: round_ties_even_def Let_def)
  next
    case False
    with a have "\<lfloor>y\<rfloor> = k - 1" by (intro floor_unique) simp_all
    with a False show ?thesis by (auto simp: round_ties_even_def Let_def)
  qed
qed

lemma round_ties_even_error: "\<bar>of_int (round_ties_even y) - y\<bar> \<le> 1 / 2"
proof -
  have "of_int \<lfloor>y\<rfloor> \<le> y" "y < of_int \<lfloor>y\<rfloor> + 1" using floor_correct [of y] by simp_all
  then show ?thesis by (auto simp: round_ties_even_def Let_def abs_le_iff)
qed

lemma fl_ge1:
  assumes "1 \<le> x"
  shows "fl x = of_int (round_ties_even (x / pow2 (exponent x - 52))) * pow2 (exponent x - 52)"
proof -
  from exponent_bounds(1) [OF assms] have "max (exponent x) (- 1022) = exponent x" by simp
  moreover from assms have "x \<noteq> 0" "\<bar>x\<bar> = x" "sgn x = 1" by simp_all
  ultimately show ?thesis by (simp add: fl_def Let_def)
qed

lemma fl_near:
  assumes x: "1 \<le> x" and v: "v = of_int k * pow2 (exponent x - 52)"
    and d: "\<bar>x - v\<bar> < pow2 (exponent x - 52) / 2"
  shows "fl x = v"
proof -
  let ?u = "pow2 (exponent x - 52)"
  have u: "0 < ?u" by (rule pow2_pos)
  have "x / ?u - of_int k = (x - v) / ?u" using u by (simp add: v field_simps)
  then have "\<bar>x / ?u - of_int k\<bar> = \<bar>x - v\<bar> / ?u" using u by (simp add: abs_divide)
  also have "\<dots> < 1 / 2" using d u by (simp add: field_simps)
  finally have "round_ties_even (x / ?u) = k" by (rule round_ties_even_near)
  then show ?thesis by (simp add: fl_ge1 [OF x] v)
qed

lemma fl_error:
  assumes x: "1 \<le> x"
  shows "\<bar>fl x - x\<bar> \<le> x / 9007199254740992"
proof -
  let ?u = "pow2 (exponent x - 52)"
  have u: "0 < ?u" by (rule pow2_pos)
  have "fl x - x = (of_int (round_ties_even (x / ?u)) - x / ?u) * ?u"
    using u by (simp add: fl_ge1 [OF x] field_simps)
  then have "\<bar>fl x - x\<bar> = \<bar>of_int (round_ties_even (x / ?u)) - x / ?u\<bar> * ?u"
    using u by (simp add: abs_mult)
  also have "\<dots> \<le> 1 / 2 * ?u"
    using round_ties_even_error [of "x / ?u"] u by (intro mult_right_mono) simp_all
  also have "?u = pow2 (exponent x) / 4503599627370496" by (simp add: pow2_diff pow2_52)
  also have "1 / 2 * (pow2 (exponent x) / 4503599627370496) \<le> x / 9007199254740992"
    using exponent_bounds(2) [OF x] by simp
  finally show ?thesis .
qed

lemma Math_round_stable:
  assumes "of_int n + d \<le> v + 1 / 2" and "v + 1 / 2 \<le> of_int n + 1 - d" and "\<bar>y - v\<bar> < d"
  shows "Math_round y = n"
proof -
  from assms(3) have "v - d < y" "y < v + d" by linarith+
  with assms(1,2) have "of_int n \<le> y + 1 / 2" "y + 1 / 2 < of_int n + 1" by simp_all
  then show ?thesis unfolding Math_round_def by (rule floor_unique)
qed

lemma pow2_mono: "0 \<le> k \<Longrightarrow> k \<le> m \<Longrightarrow> pow2 k \<le> pow2 m"
  by (simp add: pow2_def power_increasing)

lemma exponent_small:
  assumes "1 \<le> x" and "x \<le> 100000000000000"
  shows "exponent x \<le> 50"
proof (rule ccontr)
  assume "\<not> exponent x \<le> 50"
  then have "51 \<le> exponent x" by simp
  then have "pow2 51 \<le> pow2 (exponent x)" by (intro pow2_mono) simp_all
  also have "\<dots> \<le> x" by (rule exponent_bounds(2) [OF assms(1)])
  finally show False using assms(2) by (simp add: pow2_def)
qed

lemma quarter_representable:
  assumes "0 \<le> e" and "e \<le> 50"
  shows "of_int m / 4 = of_int (m * 2 ^ nat (50 - e)) * pow2 (e - 52)"
proof -
  from assms have "nat (52 - e) = Suc (Suc (nat (50 - e)))" by simp
  then have "(2::rat) ^ nat (52 - e) = 4 * 2 ^ nat (50 - e)" by simp
  moreover from assms have "pow2 (e - 52) = 1 / 2 ^ nat (52 - e)" by (simp add: pow2_def)
  ultimately show ?thesis by simp
qed

lemma fl_quarter:
  assumes x: "1 \<le> x" and b: "x \<le> 100000000000000"
    and d: "\<bar>x - of_int m / 4\<bar> < pow2 (exponent x) / 9007199254740992"
  shows "fl x = of_int m / 4"
proof -
  have e: "0 \<le> exponent x" "exponent x \<le> 50"
    using exponent_bounds(1) [OF x] exponent_small [OF x b] by simp_all
  have u: "pow2 (exponent x - 52) / 2 = pow2 (exponent x) / 9007199254740992"
    by (simp add: pow2_diff pow2_52)
  show ?thesis
    by (rule fl_near [OF x quarter_representable [OF e]]) (simp only: u d)
qed

lemma fl_of_int:
  assumes "1 \<le> p" and "p \<le> 100000000000000"
  shows "fl (of_int p) = of_int p"
proof -
  have "fl (of_int p) = of_int (4 * p) / 4"
    using assms by (intro fl_quarter) (simp_all add: pow2_pos)
  then show ?thesis by simp
qed

lemma price0:
  assumes "0 \<le> p" and "p \<le> 100000000000000"
  shows "Math_round (fl (of_int p * 1)) = \<lfloor>of_int p * (1 - 0 / 100) + 1 / 2 :: rat\<rfloor>"
proof (cases "p = 0")
  case True
  then show ?thesis by (simp add: fl_def Math_round_def)
next
  case False
  with assms have "1 \<le> p" by simp
  then show ?thesis using assms by (simp add: fl_of_int Math_round_def)
qed

lemma price25:
  assumes "0 \<le> p" and "p \<le> 100000000000000"
  shows "Math_round (fl (of_int p * (3 / 4))) = \<lfloor>of_int p * (1 - 25 / 100) + 1 / 2 :: rat\<rfloor>"
proof -
  consider "p = 0" | "p = 1" | "2 \<le> p" using assms(1) by linarith
  then show ?thesis
  proof cases
    case 1
    then show ?thesis by (simp add: fl_def Math_round_def)
  next
    case 2
    have "Math_round (fl (3 / 4)) = 1" by code_simp
    moreover have "\<lfloor>(1 - 25 / 100) + 1 / 2 :: rat\<rfloor> = 1" by (simp add: floor_eq_iff)
    ultimately show ?thesis using 2 by simp
  next
    case 3
    let ?x = "of_int p * (3 / 4) :: rat"
    from 3 have "(2::rat) \<le> of_int p" by simp
    then have x: "1 \<le> ?x" by simp
    from assms(2) have "(of_int p :: rat) \<le> 100000000000000" by (simp add: of_int_le_iff [of p 100000000000000, where ?'a = rat, simplified])
    then have b: "?x \<le> 100000000000000" by simp
    have "fl ?x = of_int (3 * p) / 4"
      using x b by (intro fl_quarter) (simp_all add: pow2_pos)
    then have f: "fl ?x = ?x" by simp
    have "(1 - 25 / 100 :: rat) = 3 / 4" by simp
    then show ?thesis unfolding Math_round_def by (simp only: f)
  qed
qed

lemma c5_eq: "c5 = 19 / 20 - 1 / 22517998136852480"
  by (simp add: c5_def)

lemma c20_eq: "c20 = 4 / 5 + 1 / 22517998136852480"
  by (simp add: c20_def)

lemma rat_le_of_int: "p \<le> 100000000000000 \<Longrightarrow> (of_int p :: rat) \<le> 100000000000000"
  using of_int_le_iff [of p 100000000000000, where ?'a = rat] by simp

lemma price5:
  assumes "0 \<le> p" and "p \<le> 100000000000000"
  shows "Math_round (fl (of_int p * c5)) = \<lfloor>of_int p * (1 - 5 / 100) + 1 / 2 :: rat\<rfloor>"
proof -
  consider "p = 0" | "p = 1" | "2 \<le> p" using assms(1) by linarith
  then show ?thesis
  proof cases
    case 1
    then show ?thesis by (simp add: fl_def Math_round_def)
  next
    case 2
    have "Math_round (fl c5) = 1" unfolding c5_def by code_simp
    moreover have "\<lfloor>(1 - 5 / 100) + 1 / 2 :: rat\<rfloor> = 1" by (simp add: floor_eq_iff)
    ultimately show ?thesis using 2 by simp
  next
    case 3
    let ?P = "of_int p :: rat"
    let ?x = "?P * c5"
    let ?v = "?P * (19 / 20)"
    define n where "n = (19 * p + 10) div 20"
    define r where "r = (19 * p + 10) mod 20"
    from 3 have p2: "2 \<le> ?P" by simp
    have pb: "?P \<le> 100000000000000" by (rule rat_le_of_int [OF assms(2)])
    have xv: "?x = ?v - ?P / 22517998136852480" by (simp add: c5_eq algebra_simps)
    from p2 have x: "1 \<le> ?x" by (simp add: xv)
    from pb p2 have b: "?x \<le> 100000000000000" by (simp add: xv)
    have "?x - ?v = - (?P / 22517998136852480)" by (simp add: xv)
    then have "\<bar>?x - ?v\<bar> = \<bar>?P / 22517998136852480\<bar>" by (simp only: abs_minus_cancel)
    with p2 have dv: "\<bar>?x - ?v\<bar> = ?P / 22517998136852480" by simp
    have r: "0 \<le> r" "r < 20" by (simp_all add: r_def)
    have "19 * p + 10 = 20 * n + r" by (simp add: n_def r_def)
    then have "(of_int (19 * p + 10) :: rat) = of_int (20 * n + r)" by (simp only:)
    then have nr: "?v + 1 / 2 = of_int n + of_int r / 20" by simp
    have rr: "(0::rat) \<le> of_int r" "(of_int r :: rat) < 20"
      using r of_int_less_iff [of r 20, where ?'a = rat] by simp_all
    have fl_spec: "\<lfloor>?v + 1 / 2\<rfloor> = n"
      using nr rr by (intro floor_unique) simp_all
    have goal: "Math_round (fl ?x) = n"
    proof (cases "r = 0")
      case True
      with nr have v: "?v = of_int (4 * n - 2) / 4" by simp
      have "\<bar>?x - of_int (4 * n - 2) / 4\<bar> = \<bar>?x - ?v\<bar>" by (simp only: v)
      also have "\<dots> = ?P / 22517998136852480" by (simp only: dv)
      also have "\<dots> < pow2 (exponent ?x) / 9007199254740992"
      proof -
        have "?x < 2 * pow2 (exponent ?x)" by (rule exponent_bounds(3) [OF x])
        moreover have "?P * (4 / 5) \<le> ?x" using p2 by (simp add: xv)
        ultimately show ?thesis by simp
      qed
      finally have "fl ?x = of_int (4 * n - 2) / 4" by (rule fl_quarter [OF x b])
      then have "fl ?x = ?v" by (simp only: v)
      then show ?thesis unfolding Math_round_def by (simp only: fl_spec)
    next
      case False
      with r have "1 \<le> r" "r \<le> 19" by linarith+
      then have "(1::rat) \<le> of_int r" "(of_int r :: rat) \<le> 19"
        using of_int_le_iff [of 1 r, where ?'a = rat] of_int_le_iff [of r 19, where ?'a = rat]
        by simp_all
      with nr have lo: "of_int n + 1 / 20 \<le> ?v + 1 / 2"
        and hi: "?v + 1 / 2 \<le> of_int n + 1 - 1 / 20" by simp_all
      have "\<bar>fl ?x - ?v\<bar> \<le> \<bar>fl ?x - ?x\<bar> + \<bar>?x - ?v\<bar>" by simp
      also have "\<bar>?x - ?v\<bar> = ?P / 22517998136852480" by (rule dv)
      also have "\<bar>fl ?x - ?x\<bar> + ?P / 22517998136852480
          \<le> ?x / 9007199254740992 + ?P / 22517998136852480"
        using fl_error [OF x] by simp
      also have "\<dots> < 1 / 20" using b pb by linarith
      finally have "\<bar>fl ?x - ?v\<bar> < 1 / 20" .
      with lo hi show ?thesis by (rule Math_round_stable)
    qed
    have "(1 - 5 / 100 :: rat) = 19 / 20" by simp
    with goal fl_spec show ?thesis by (simp only:)
  qed
qed

lemma price20:
  assumes "0 \<le> p" and "p \<le> 100000000000000"
  shows "Math_round (fl (of_int p * c20)) = \<lfloor>of_int p * (1 - 20 / 100) + 1 / 2 :: rat\<rfloor>"
proof -
  consider "p = 0" | "p = 1" | "2 \<le> p" using assms(1) by linarith
  then show ?thesis
  proof cases
    case 1
    then show ?thesis by (simp add: fl_def Math_round_def)
  next
    case 2
    have "Math_round (fl c20) = 1" unfolding c20_def by code_simp
    moreover have "\<lfloor>(1 - 20 / 100) + 1 / 2 :: rat\<rfloor> = 1" by (simp add: floor_eq_iff)
    ultimately show ?thesis using 2 by simp
  next
    case 3
    let ?P = "of_int p :: rat"
    let ?x = "?P * c20"
    let ?v = "?P * (4 / 5)"
    define n where "n = (8 * p + 5) div 10"
    define r where "r = (8 * p + 5) mod 10"
    from 3 have p2: "2 \<le> ?P" by simp
    have pb: "?P \<le> 100000000000000" by (rule rat_le_of_int [OF assms(2)])
    have xv: "?x = ?v + ?P / 22517998136852480" by (simp add: c20_eq algebra_simps)
    from p2 have x: "1 \<le> ?x" by (simp add: xv)
    from pb p2 have b: "?x \<le> 100000000001000" by (simp add: xv)
    have "?x - ?v = ?P / 22517998136852480" by (simp add: xv)
    with p2 have dv: "\<bar>?x - ?v\<bar> = ?P / 22517998136852480" by simp
    have "r \<noteq> 0" unfolding r_def by presburger
    moreover have "0 \<le> r" "r < 10" by (simp_all add: r_def)
    ultimately have r: "1 \<le> r" "r \<le> 9" by linarith+
    have "8 * p + 5 = 10 * n + r" by (simp add: n_def r_def)
    then have "(of_int (8 * p + 5) :: rat) = of_int (10 * n + r)" by (simp only:)
    then have nr: "?v + 1 / 2 = of_int n + of_int r / 10" by simp
    have rr: "(1::rat) \<le> of_int r" "(of_int r :: rat) \<le> 9"
      using r of_int_le_iff [of 1 r, where ?'a = rat] of_int_le_iff [of r 9, where ?'a = rat]
      by simp_all
    have fl_spec: "\<lfloor>?v + 1 / 2\<rfloor> = n"
      using nr rr by (intro floor_unique) simp_all
    from nr rr have lo: "of_int n + 1 / 10 \<le> ?v + 1 / 2"
      and hi: "?v + 1 / 2 \<le> of_int n + 1 - 1 / 10" by simp_all
    have "\<bar>fl ?x - ?v\<bar> \<le> \<bar>fl ?x - ?x\<bar> + \<bar>?x - ?v\<bar>" by simp
    also have "\<bar>?x - ?v\<bar> = ?P / 22517998136852480" by (rule dv)
    also have "\<bar>fl ?x - ?x\<bar> + ?P / 22517998136852480
        \<le> ?x / 9007199254740992 + ?P / 22517998136852480"
      using fl_error [OF x] by simp
    also have "\<dots> < 1 / 10" using b pb by linarith
    finally have "\<bar>fl ?x - ?v\<bar> < 1 / 10" .
    with lo hi have goal: "Math_round (fl ?x) = n" by (rule Math_round_stable)
    have "(1 - 20 / 100 :: rat) = 4 / 5" by simp
    with goal fl_spec show ?thesis by (simp only:)
  qed
qed

lemma round_ties_even_nonneg: "0 \<le> y \<Longrightarrow> 0 \<le> round_ties_even y"
  by (auto simp: round_ties_even_def Let_def)

lemma fl_nonneg: "0 \<le> x \<Longrightarrow> 0 \<le> fl x"
proof -
  assume x: "0 \<le> x"
  show ?thesis
  proof (cases "x = 0")
    case True
    then show ?thesis by (simp add: fl_def)
  next
    case False
    with x have p: "0 < x" by simp
    let ?u = "pow2 (max (exponent \<bar>x\<bar>) (- 1022) - 52)"
    have u: "0 < ?u" by (rule pow2_pos)
    with p have "0 \<le> \<bar>x\<bar> / ?u" by simp
    then have "0 \<le> round_ties_even (\<bar>x\<bar> / ?u)" by (rule round_ties_even_nonneg)
    then have "(0::rat) \<le> of_int (round_ties_even (\<bar>x\<bar> / ?u)) * ?u" using u by simp
    with p show ?thesis by (simp add: fl_def Let_def)
  qed
qed

lemma getDay_weekend: "(getDay day = 0 \<or> getDay day = 6) = (day = Saturday \<or> day = Sunday)"
  by (cases day) simp_all

lemma factor_0: "factor 0 = 1"
  unfolding factor_def by code_simp

lemma factor_5: "factor 5 = c5"
  unfolding factor_def c5_def by code_simp

lemma factor_20: "factor 20 = c20"
  unfolding factor_def c20_def by code_simp

lemma factor_25: "factor 25 = 3 / 4"
  unfolding factor_def by code_simp

lemma totalPercent_cases: "totalPercent day roles \<in> {0, 5, 20, 25}"
  by (simp add: totalPercent_def)

lemma discountedPrice_factor:
  "discountedPrice day roles p = Math_round (fl (p * factor (totalPercent day roles)))"
  by (simp add: discountedPrice_def totalPercent_def getDay_weekend Let_def factor_def)

lemma factor_nonneg: "0 \<le> factor (totalPercent day roles)"
proof -
  from totalPercent_cases [of day roles]
  consider "totalPercent day roles = 0" | "totalPercent day roles = 5"
    | "totalPercent day roles = 20" | "totalPercent day roles = 25" by auto
  then show ?thesis
  proof cases
    case 1 then show ?thesis by (simp add: factor_0)
  next
    case 2 then show ?thesis by (simp add: factor_5 c5_def)
  next
    case 3 then show ?thesis by (simp add: factor_20 c20_def)
  next
    case 4 then show ?thesis by (simp add: factor_25)
  qed
qed

lemma discountedPrice_nonneg: "0 \<le> p \<Longrightarrow> 0 \<le> discountedPrice day roles p"
proof -
  assume p: "0 \<le> p"
  with factor_nonneg [of day roles]
  have "0 \<le> p * factor (totalPercent day roles)" by simp
  then have "0 \<le> fl (p * factor (totalPercent day roles))" by (rule fl_nonneg)
  then have "(0::rat) \<le> fl (p * factor (totalPercent day roles)) + 1 / 2"
    by simp
  then show ?thesis
    unfolding discountedPrice_factor Math_round_def by (simp only: zero_le_floor)
qed

lemma round_half_up_iff: "round_half_up x n \<longleftrightarrow> n = \<lfloor>x + 1 / 2\<rfloor>"
proof -
  have "round_half_up x n \<longleftrightarrow> of_int n \<le> x + 1 / 2 \<and> x + 1 / 2 < of_int n + 1"
    by (auto simp: round_half_up_def)
  also have "\<dots> \<longleftrightarrow> \<lfloor>x + 1 / 2\<rfloor> = n" by (simp add: floor_eq_iff)
  finally show ?thesis by auto
qed

lemma discountedPrice_whole:
  assumes "0 \<le> p" and "p \<le> 100000000000000"
  shows "discountedPrice day roles (of_int p)
     = \<lfloor>of_int p * (1 - of_int (totalPercent day roles) / 100) + 1 / 2 :: rat\<rfloor>"
proof -
  from totalPercent_cases [of day roles]
  consider "totalPercent day roles = 0" | "totalPercent day roles = 5"
    | "totalPercent day roles = 20" | "totalPercent day roles = 25" by auto
  then show ?thesis
  proof cases
    case 1
    have "Math_round (fl (of_int p * factor 0)) = \<lfloor>of_int p * (1 - of_int 0 / 100) + 1 / 2 :: rat\<rfloor>"
      using price0 [OF assms] by (simp only: factor_0 of_int_0)
    then show ?thesis by (simp only: discountedPrice_factor 1)
  next
    case 2
    have "(of_int 5 :: rat) = 5" by simp
    then have "Math_round (fl (of_int p * factor 5)) = \<lfloor>of_int p * (1 - of_int 5 / 100) + 1 / 2 :: rat\<rfloor>"
      using price5 [OF assms] by (simp only: factor_5)
    then show ?thesis by (simp only: discountedPrice_factor 2)
  next
    case 3
    have "(of_int 20 :: rat) = 20" by simp
    then have "Math_round (fl (of_int p * factor 20)) = \<lfloor>of_int p * (1 - of_int 20 / 100) + 1 / 2 :: rat\<rfloor>"
      using price20 [OF assms] by (simp only: factor_20)
    then show ?thesis by (simp only: discountedPrice_factor 3)
  next
    case 4
    have "(of_int 25 :: rat) = 25" by simp
    then have "Math_round (fl (of_int p * factor 25)) = \<lfloor>of_int p * (1 - of_int 25 / 100) + 1 / 2 :: rat\<rfloor>"
      using price25 [OF assms] by (simp only: factor_25)
    then show ?thesis by (simp only: discountedPrice_factor 4)
  qed
qed

lemma ex_price_sword: "discountedPrice Saturday [''1260383669839724634''] 100 = 75"
  by code_simp

lemma ex_price_potion: "discountedPrice Saturday [''1260383669839724634''] 33 = 25"
  by code_simp

lemma ex_big: "discountedPrice Sunday [] 8000000000000010 = 7600000000000009"
  by code_simp

lemma ex_client: "displayShopData_discountedPrice Saturday [''1260383669839724634''] 100 = 76"
  by code_simp

section \<open>Unfolding the handlers on the example data\<close>

lemmas ex_defs = ex_user_def ex_sword_def ex_potion_def ex_inventory_def ex_state_def ex_env_def
  ex_request_def ex_inventory_sword_def GUILD_ID_def

lemmas buy_defs = post_buy_def try_block_def saveInventory_def upsertLine_def inventory_valid_def
  line_valid_def required_def Let_def mongo_defs ex_price_sword ex_price_potion

lemmas string_defs = StringToNumber_def trim_def is_ws_def digit_of_def unsigned_value_def
  NumberToString_def decimal.simps

lemmas read_defs = get_profile_def get_achievements_def cache_get_def cache_set_def
  fetchUserGuildMember_def profileData_def userRank_def countDocuments_def Let_def

lemma upsertLine_number:
  "upsertLine item (JsNumber q) ls =
     Some (case findIndex (\<lambda>i. itemId i = item_id item) ls of
             Some i \<Rightarrow> ls[i := (ls ! i)\<lparr>quantity := quantity (ls ! i) + q\<rparr>]
           | None \<Rightarrow> ls @ [\<lparr>itemId = item_id item, itemName = item_name item, quantity = q\<rparr>])"
  by (simp add: upsertLine_def split: option.splits)

lemma upsertLine_valid:
  assumes "upsertLine item qv ls = Some ls'"
    and "list_all line_valid ls" "item_id item \<noteq> []" "item_name item \<noteq> []"
  shows "list_all line_valid ls'"
proof (cases "findIndex (\<lambda>i. itemId i = item_id item) ls")
  case None
  with assms show ?thesis by (auto simp: upsertLine_def line_valid_def required_def)
next
  case (Some i)
  with assms(1) obtain n where ls': "ls' = ls[i := (ls ! i)\<lparr>quantity := n\<rparr>]"
    by (auto simp: upsertLine_def)
  from Some have i: "i < length ls" by (auto dest: findIndex_Some)
  with assms(2) have "line_valid (ls ! i)" by (simp add: list_all_length)
  then have "line_valid ((ls ! i)\<lparr>quantity := n\<rparr>)"
    by (simp add: line_valid_def)
  moreover have "set (ls[i := (ls ! i)\<lparr>quantity := n\<rparr>])
      \<subseteq> insert ((ls ! i)\<lparr>quantity := n\<rparr>) (set ls)"
    by (rule set_update_subset_insert)
  ultimately show ?thesis
    using assms(2) unfolding ls' by (auto simp: list_all_iff)
qed

lemma findOne_SomeD: "findOne p xs = Some x \<Longrightarrow> \<exists>i. findIndex p xs = Some i \<and> xs ! i = x"
  by (auto simp: findOne_def)

lemma post_buy_commits:
  assumes u: "userOf (db st) (req_uuid req) (req_userId req) = Some user"
    and i: "itemOf (db st) (req_itemName req) = Some item"
    and r: "memberRoles env (req_userId req) = Some roles"
    and v: "inventoryOf (db st) (req_userId req) = Some inventory"
    and f: "\<forall>x. \<not> dbFails env x"
    and tn: "ToNumber (req_quantity req) = Some q"
    and g1: "\<not> (stock item \<noteq> - 1 \<and> stock item < q)"
    and g2: "\<not> stars user < discountedPrice (today env) roles (price item) * q"
    and up: "upsertLine item (req_quantity req) (items inventory) = Some ls"
    and va: "inventory_valid (inventory\<lparr>items := ls\<rparr>)"
  shows "\<exists>st'. post_buy env st req =
     Some (Purchased (req_quantity req) (item_name item)
             (discountedPrice (today env) roles (price item) * q), st')"
proof -
  let ?m = "startTransaction \<lparr>stored = db st, txn = None\<rparr>"
  from u obtain ui where fu: "findIndex (\<lambda>u. uuid u = req_uuid req \<and> userId u = req_userId req)
      (users (db st)) = Some ui" and ux: "users (db st) ! ui = user"
    unfolding userOf_def by (auto dest: findOne_SomeD)
  from i obtain ii where fi: "findIndex (\<lambda>i. item_name i = req_itemName req) (shop (db st)) = Some ii"
    and ix: "shop (db st) ! ii = item"
    unfolding itemOf_def by (auto dest: findOne_SomeD)
  from v obtain kk where fk: "findIndex (\<lambda>d. inv_userId d = req_userId req) (inventories (db st)) = Some kk"
    and kx: "inventories (db st) ! kk = inventory"
    unfolding inventoryOf_def by (auto dest: findOne_SomeD)
  from try_block_commits [OF session_start(1) fu fi r fk f tn] g1 g2 up va ux ix kx
  obtain m' where "try_block env ?m req =
     Some (Responded (Purchased (req_quantity req) (item_name item)
            (discountedPrice (today env) roles (price item) * q)), m')"
    by auto
  then show ?thesis by (simp add: post_buy_def Let_def)
qed

lemma post_buy_number_effects:
  assumes "post_buy env st req = Some (Purchased qv n t, st')" and "req_quantity req = JsNumber q"
  shows "\<exists>user item roles inventory inventory'.
     userOf (db st) (req_uuid req) (req_userId req) = Some user \<and>
     itemOf (db st) (req_itemName req) = Some item \<and>
     memberRoles env (req_userId req) = Some roles \<and>
     inventoryOf (db st) (req_userId req) = Some inventory \<and>
     qv = JsNumber q \<and> n = item_name item \<and>
     t = discountedPrice (today env) roles (price item) * q \<and>
     \<not> (stock item \<noteq> - 1 \<and> stock item < q) \<and>
     \<not> stars user < discountedPrice (today env) roles (price item) * q \<and>
     map_option stars (userOf (db st') (req_uuid req) (req_userId req))
       = Some (stars user - discountedPrice (today env) roles (price item) * q) \<and>
     map_option stock (itemOf (db st') (req_itemName req))
       = Some (if stock item = - 1 then - 1 else stock item - q) \<and>
     inventoryOf (db st') (req_userId req) = Some inventory' \<and>
     (case lineOf inventory (item_id item) of
        Some l \<Rightarrow> lineOf inventory' (item_id item) = Some (l\<lparr>quantity := quantity l + q\<rparr>)
                  \<and> length (items inventory') = length (items inventory)
      | None \<Rightarrow> items inventory' =
                  items inventory @ [\<lparr>itemId = item_id item, itemName = item_name item, quantity = q\<rparr>])"
proof -
  from post_buy_effects [OF assms(1)] obtain user item roles inventory inventory' q' where
    1: "userOf (db st) (req_uuid req) (req_userId req) = Some user" and
    2: "itemOf (db st) (req_itemName req) = Some item" and
    3: "memberRoles env (req_userId req) = Some roles" and
    4: "inventoryOf (db st) (req_userId req) = Some inventory" and
    5: "qv = req_quantity req" "ToNumber qv = Some q'" and
    6: "n = item_name item" "t = discountedPrice (today env) roles (price item) * q'" and
    7: "\<not> (stock item \<noteq> - 1 \<and> stock item < q')"
       "\<not> stars user < discountedPrice (today env) roles (price item) * q'" and
    8: "map_option stars (userOf (db st') (req_uuid req) (req_userId req))
          = Some (stars user - discountedPrice (today env) roles (price item) * q')" and
    9: "map_option stock (itemOf (db st') (req_itemName req))
          = Some (if stock item = - 1 then - 1 else stock item - q')" and
    10: "inventoryOf (db st') (req_userId req) = Some inventory'" and
    11: "(case lineOf inventory (item_id item) of
        Some l \<Rightarrow> (\<exists>k. plusAssignQuantity (quantity l) qv = Some k
                     \<and> lineOf inventory' (item_id item) = Some (l\<lparr>quantity := k\<rparr>)
                     \<and> length (items inventory') = length (items inventory))
      | None \<Rightarrow> (\<exists>k. castQuantity qv = Some k
                    \<and> items inventory' = items inventory
                         @ [\<lparr>itemId = item_id item, itemName = item_name item, quantity = k\<rparr>]))"
    by blast
  from 5 assms(2) have q: "qv = JsNumber q" "q' = q" by simp_all
  from 11 q have 12: "(case lineOf inventory (item_id item) of
        Some l \<Rightarrow> lineOf inventory' (item_id item) = Some (l\<lparr>quantity := quantity l + q\<rparr>)
                  \<and> length (items inventory') = length (items inventory)
      | None \<Rightarrow> items inventory' =
                  items inventory @ [\<lparr>itemId = item_id item, itemName = item_name item, quantity = q\<rparr>])"
    by (auto split: option.splits)
  from 1 2 3 4 q 6 7 8 9 10 12 show ?thesis by blast
qed

section \<open>Reads through the cache, and the login\<close>

lemmas ach_defs = userAchievements_def achievements_catalog_def evalAchievement_def Let_def

lemma countDocuments_card:
  "countDocuments p docs = card {i. i < length docs \<and> p (docs ! i)}"
  by (simp add: countDocuments_def length_filter_conv_card)

lemma get_profile_missE:
  assumes "cache_get (now env) (cache st) (''profile_'' @ k) = None"
    and "get_profile env st k = (Json200 body, st')"
  obtains i m where
    "findIndex (\<lambda>x. uuid x = k) (users (db st)) = Some i"
    "fst (fetchUserGuildMember (discord env) (userGuildMemberCache st) (userId (users (db st) ! i))) = Some m"
    "body = ProfileBody (profileData (users (db st)) (users (db st) ! i)
               (case member_roles m of None \<Rightarrow> [] | Some rs \<Rightarrow> rs))"
  using assms unfolding get_profile_def Let_def
  by (auto split: option.splits prod.splits)

lemma get_achievements_missE:
  assumes "cache_get (now env) (cache st) (''achievements_'' @ k) = None"
    and "get_achievements env st k = (Json200 body, st')"
  obtains i where
    "findIndex (\<lambda>x. uuid x = k) (users (db st)) = Some i"
    "body = AchievementsBody (userAchievements (users (db st) ! i))"
  using assms unfolding get_achievements_def Let_def
  by (auto split: option.splits prod.splits)

lemma evalAchievement_completed:
  "completed (evalAchievement u d)
     = (\<exists>a \<in> set (achievements u). a_name a = ach_name d \<and> a_completed a)"
  by (simp add: evalAchievement_def Let_def list_ex_iff)

lemmas login_defs = verify_def fetchUserGuildMember_def allowedRoleIds_def Let_def

lemma get_profile_hit:
  "cache_get (now env) (cache st) (''profile_'' @ k) = Some v \<Longrightarrow> get_profile env st k = (Json200 v, st)"
  by (simp add: get_profile_def)

lemma get_achievements_hit:
  "cache_get (now env) (cache st) (''achievements_'' @ k) = Some v
     \<Longrightarrow> get_achievements env st k = (Json200 v, st)"
  by (simp add: get_achievements_def)

lemma buyItem_refetches:
  assumes pb: "post_buy benv st
       \<lparr>req_uuid = k, req_userId = uid, req_itemName = nm, req_quantity = JsNumber q\<rparr> = Some (r, st1)"
    and ok: "buy_status r = 200"
    and k: "k \<noteq> []"
    and hit: "cache_get (now renv) (cache st) (''profile_'' @ k) = Some v"
  shows "buyItem benv renv uid (cs, st) k nm q =
     Some (cs\<lparr>cachedProfileData := (cachedProfileData cs)(k \<mapsto> v),
              shopDataCache := Some (shop (db st1))\<rparr>, st1)"
proof -
  from post_buy_frame [OF pb] have "cache st1 = cache st" by simp
  with hit have "cache_get (now renv) (cache st1) (''profile_'' @ k) = Some v" by simp
  then have gp: "get_profile renv st1 k = (Json200 v, st1)" by (rule get_profile_hit)
  show ?thesis
    unfolding buyItem_def
    by (simp add: pb ok gp k fetchProfileData_def displayShopData_def fetchShopData_def get_shop_def
        Let_def)
qed

lemma roleDatesLoop_map_of:
  "map_of (roleDatesLoop as rs t acc) r
     = (if r \<in> set as \<and> r \<in> set rs then Some t else map_of acc r)"
  by (induction as arbitrary: acc) (auto simp: update_conv')

lemma verify_InrE:
  assumes "verify env st profile = (Inr user, st')"
  obtains m :: GuildMember and rs where
    "case userGuildMemberCache st (profile_id profile) of
       Some cached \<Rightarrow> m = cached
     | None \<Rightarrow> login_discord env (profile_id profile) = Some m"
    "member_roles m = Some rs"
    "roleAcquisitionDates user = roleDatesLoop allowedRoleIds rs (login_now env) []"
    "userId user = profile_id profile \<and> serverId user = GUILD_ID"
    "users (db st') =
       (case findIndex (\<lambda>u. userId u = profile_id profile \<and> serverId u = GUILD_ID) (users (db st)) of
          Some i \<Rightarrow> (users (db st))[i := user]
        | None \<Rightarrow> users (db st) @ [user])"
    "userGuildMemberCache st' (profile_id profile) = Some m"
  using assms unfolding verify_def fetchUserGuildMember_def Let_def
  by (auto split: option.splits prod.splits dest: findIndex_Some)

lemma ex_cached_state_eq:
  "ex_cached_state = (ex_state [ex_inventory])
     \<lparr>cache := cache_set 1000 (\<lambda>k. None) ''profile_uuid-1''
                 (ProfileBody (profileData [ex_user] ex_user [])) 300,
      userGuildMemberCache := (\<lambda>k. None)(''1001'' \<mapsto> \<lparr>member_roles = Some []\<rparr>)\<rparr>"
  by (simp add: ex_cached_state_def get_profile_def cache_get_def fetchUserGuildMember_def Let_def
      ex_read_env_def ex_state_def ex_user_def)

section \<open>Properties of the purchase transactor\<close>

text \<open>
  The session argument is what makes a write part of the transaction: a write that is
  given the session is dropped by \<^verbatim>\<open>abortTransaction\<close> and kept by
  \<^verbatim>\<open>commitTransaction\<close>, and a write without the session is kept whatever follows.
\<close>

lemma session_write_dropped_by_abort:
  "stored (endSession (abortTransaction (db_write InSession f (startTransaction m)))) = stored m"
  "stored (endSession (abortTransaction (db_write NoSession f (startTransaction m)))) = f (stored m)"
  "stored (endSession (commitTransaction (db_write InSession f (startTransaction m)))) = f (stored m)"
  by (simp_all add: mongo_defs)



text \<open>
  C2 fails for a quantity that arrives as a JSON string. The example user has 500 stars
  and holds one sword; the sword has a stock of 5 and costs 75 on a Saturday for a member
  with the discount role. The request carries the quantity \<^verbatim>\<open>"2"\<close>. The guards, the debit
  and the stock decrement convert the string to the number 2: the purchase commits, the
  stars become 350 and the stock 3. Line 462 applies \<^verbatim>\<open>+=\<close> to the stored quantity 1 and
  the string, which concatenates them to \<^verbatim>\<open>"12"\<close>: the quantity of the line becomes 12, not
  3. The same request with the number 2 gives 3.
\<close>

theorem string_quantity_is_concatenated:
  "map_option stars (userOf (db (ex_state [ex_inventory_sword])) ''uuid-1'' ''1001'') = Some 500
   \<and> map_option stock (itemOf (db (ex_state [ex_inventory_sword])) ''sword'') = Some 5
   \<and> map_option items (inventoryOf (db (ex_state [ex_inventory_sword])) ''1001'')
       = Some [\<lparr>itemId = ''65f1a0'', itemName = ''sword'', quantity = 1\<rparr>]
   \<and> (\<exists>st'. post_buy ex_env (ex_state [ex_inventory_sword]) (ex_request ''sword'' (JsString ''2''))
              = Some (Purchased (JsString ''2'') ''sword'' 150, st')
        \<and> map_option stars (userOf (db st') ''uuid-1'' ''1001'') = Some 350
        \<and> map_option stock (itemOf (db st') ''sword'') = Some 3
        \<and> map_option items (inventoryOf (db st') ''1001'')
            = Some [\<lparr>itemId = ''65f1a0'', itemName = ''sword'', quantity = 12\<rparr>])
   \<and> (\<exists>st'. post_buy ex_env (ex_state [ex_inventory_sword]) (ex_request ''sword'' (JsNumber 2))
              = Some (Purchased (JsNumber 2) ''sword'' 150, st')
        \<and> map_option items (inventoryOf (db st') ''1001'')
            = Some [\<lparr>itemId = ''65f1a0'', itemName = ''sword'', quantity = 3\<rparr>])"
proof -
  have s: "post_buy ex_env (ex_state [ex_inventory_sword]) (ex_request ''sword'' (JsString ''2''))
     = Some (Purchased (JsString ''2'') ''sword'' 150,
         (ex_state [ex_inventory_sword])\<lparr>db := \<lparr>users = [ex_user\<lparr>stars := 350\<rparr>],
            shop = [ex_sword\<lparr>stock := 3\<rparr>, ex_potion],
            inventories = [ex_inventory\<lparr>items :=
               [\<lparr>itemId = ''65f1a0'', itemName = ''sword'', quantity = 12\<rparr>]\<rparr>]\<rparr>\<rparr>)"
    by (simp add: ex_defs buy_defs string_defs)
  have n: "post_buy ex_env (ex_state [ex_inventory_sword]) (ex_request ''sword'' (JsNumber 2))
     = Some (Purchased (JsNumber 2) ''sword'' 150,
         (ex_state [ex_inventory_sword])\<lparr>db := \<lparr>users = [ex_user\<lparr>stars := 350\<rparr>],
            shop = [ex_sword\<lparr>stock := 3\<rparr>, ex_potion],
            inventories = [ex_inventory\<lparr>items :=
               [\<lparr>itemId = ''65f1a0'', itemName = ''sword'', quantity = 3\<rparr>]\<rparr>]\<rparr>\<rparr>)"
    by (simp add: ex_defs buy_defs)
  show ?thesis
    unfolding s n
    by (simp add: userOf_def itemOf_def inventoryOf_def findOne_def ex_defs)
qed

text \<open>
  C3, as the code has it. The total percentage is 0, plus 5 on a Saturday or Sunday, plus
  20 for a member holding the discount role, and the final price is \<^verbatim>\<open>Math.round\<close> of the
  double-precision product of the price and one minus the total over 100, the division,
  the subtraction and the product each rounded to the nearest double. For a price that is
  a whole number from 0 to \<open>10^14\<close> this is the exact product rounded to the nearest
  integer, a tie going up, and the only such integer. A committed purchase charges that
  price times the quantity. The three worked prices: 75, 100, 31.
\<close>

theorem discount_added_then_rounded_once:
  "discountedPrice day roles p
     = Math_round (fl (p * fl (1 - fl (of_int (totalPercent day roles) / 100))))
   \<and> (\<forall>k. 0 \<le> k \<and> k \<le> 100000000000000 \<longrightarrow>
        round_half_up (of_int k * (1 - of_int (totalPercent day roles) / 100))
          (discountedPrice day roles (of_int k))
        \<and> (\<forall>m. round_half_up (of_int k * (1 - of_int (totalPercent day roles) / 100)) m
               \<longrightarrow> m = discountedPrice day roles (of_int k)))
   \<and> (\<forall>env st req qv n t st'. post_buy env st req = Some (Purchased qv n t, st') \<longrightarrow>
        (\<exists>item rs q. itemOf (db st) (req_itemName req) = Some item
           \<and> memberRoles env (req_userId req) = Some rs
           \<and> ToNumber (req_quantity req) = Some q
           \<and> t = discountedPrice (today env) rs (price item) * q))
   \<and> discountedPrice Saturday [''1260383669839724634''] 100 = 75
   \<and> discountedPrice Monday [] 100 = 100
   \<and> discountedPrice Sunday [] 33 = 31"
proof (intro conjI allI impI)
  show "discountedPrice day roles p
     = Math_round (fl (p * fl (1 - fl (of_int (totalPercent day roles) / 100))))"
    by (simp only: discountedPrice_factor factor_def)
next
  fix k :: int
  assume k: "0 \<le> k \<and> k \<le> 100000000000000"
  then show "round_half_up (of_int k * (1 - of_int (totalPercent day roles) / 100))
          (discountedPrice day roles (of_int k))"
    by (simp only: round_half_up_iff discountedPrice_whole)
next
  fix k m :: int
  assume k: "0 \<le> k \<and> k \<le> 100000000000000"
    and "round_half_up (of_int k * (1 - of_int (totalPercent day roles) / 100)) m"
  then show "m = discountedPrice day roles (of_int k)"
    by (simp only: round_half_up_iff discountedPrice_whole)
next
  fix env st req qv n t st'
  assume a: "post_buy env st req = Some (Purchased qv n t, st')"
  from post_buy_effects [OF a]
  show "\<exists>item rs q. itemOf (db st) (req_itemName req) = Some item
           \<and> memberRoles env (req_userId req) = Some rs
           \<and> ToNumber (req_quantity req) = Some q
           \<and> t = discountedPrice (today env) rs (price item) * q"
    by blast
next
  show "discountedPrice Saturday [''1260383669839724634''] 100 = 75" by code_simp
  show "discountedPrice Monday [] 100 = 100" by code_simp
  show "discountedPrice Sunday [] 33 = 31" by code_simp
qed

text \<open>
  A price of 10 on a Sunday: 25 percent off is 7.5, a tie, which rounds up to 8 for a
  member with the discount role; 5 percent off is 9.5, a tie, which rounds up to 10
  without the role. The example purchase of two swords on a Saturday by a member with the
  role is charged 2 times 75.
\<close>

theorem discount_added_then_rounded_once_witness:
  "totalPercent Sunday [''1260383669839724634''] = 25
   \<and> discountedPrice Sunday [''1260383669839724634''] 10 = 8
   \<and> round_half_up (of_int 10 * (1 - of_int (totalPercent Sunday [''1260383669839724634'']) / 100)) 8
   \<and> discountedPrice Sunday [] 10 = 10
   \<and> round_half_up (of_int 10 * (1 - of_int (totalPercent Sunday []) / 100)) 10
   \<and> map_option fst (post_buy ex_env (ex_state [ex_inventory]) (ex_request ''sword'' (JsNumber 2)))
       = Some (Purchased (JsNumber 2) ''sword'' 150)
   \<and> 150 = discountedPrice (today ex_env) [''1260383669839724634''] (price ex_sword) * 2"
proof -
  let ?r = "post_buy ex_env (ex_state [ex_inventory]) (ex_request ''sword'' (JsNumber 2))"
  note inst = discount_added_then_rounded_once [of Sunday "[''1260383669839724634'']" 10]
  note inst2 = discount_added_then_rounded_once [of Sunday "[]" 10]
  have a: "totalPercent Sunday [''1260383669839724634''] = 25" by (simp add: totalPercent_def)
  have b: "discountedPrice Sunday [''1260383669839724634''] 10 = 8" by code_simp
  have t: "discountedPrice Sunday [] 10 = 10" by code_simp
  have c: "map_option fst ?r = Some (Purchased (JsNumber 2) ''sword'' 150)"
    by (simp add: ex_defs buy_defs)
  then obtain st' where h: "?r = Some (Purchased (JsNumber 2) ''sword'' 150, st')" by auto
  have i: "itemOf (db (ex_state [ex_inventory])) (req_itemName (ex_request ''sword'' (JsNumber 2)))
      = Some ex_sword"
    by (simp add: itemOf_def findOne_def ex_defs)
  have m: "memberRoles ex_env (req_userId (ex_request ''sword'' (JsNumber 2)))
      = Some [''1260383669839724634'']"
    by (simp add: ex_env_def)
  from inst [THEN conjunct2, THEN conjunct2, THEN conjunct1, rule_format, OF h]
  have "\<exists>item rs q. itemOf (db (ex_state [ex_inventory]))
             (req_itemName (ex_request ''sword'' (JsNumber 2))) = Some item
           \<and> memberRoles ex_env (req_userId (ex_request ''sword'' (JsNumber 2))) = Some rs
           \<and> ToNumber (req_quantity (ex_request ''sword'' (JsNumber 2))) = Some q
           \<and> 150 = discountedPrice (today ex_env) rs (price item) * q" .
  with i m have d: "150 = discountedPrice (today ex_env) [''1260383669839724634''] (price ex_sword) * 2"
    by (auto simp: ex_request_def)
  have k10: "0 \<le> (10::int) \<and> (10::int) \<le> 100000000000000" by simp
  from inst [THEN conjunct2, THEN conjunct1, rule_format, OF k10, THEN conjunct1] b
  have e: "round_half_up (of_int 10 * (1 - of_int (totalPercent Sunday [''1260383669839724634'']) / 100)) 8"
    by simp
  from inst2 [THEN conjunct2, THEN conjunct1, rule_format, OF k10, THEN conjunct1] t
  have f: "round_half_up (of_int 10 * (1 - of_int (totalPercent Sunday []) / 100)) 10"
    by simp
  from a b e t f c d show ?thesis by simp
qed

text \<open>
  C3 as stated fails, the arithmetic being that of doubles. A price of 8000000000000010
  on a Sunday: 5 percent off is 7600000000000009.5 exactly, which rounds up to
  7600000000000010, and the code gives 7600000000000009, the double nearest to 0.95 being
  below 0.95. A price of 13.124999999999998 (the double \<open>7388718138654719 / 2^49\<close>) on a
  Monday for a member with the discount role: 20 percent off is below 10.5 and rounds to
  10, and the code gives 11, the double product being 10.5.
\<close>

theorem discount_not_rounded_exactly:
  "discountedPrice Sunday [] 8000000000000010 = 7600000000000009
   \<and> round_half_up (8000000000000010 * (1 - of_int (totalPercent Sunday []) / 100)) 7600000000000010
   \<and> discountedPrice Monday [''1260383669839724634''] (7388718138654719 / 562949953421312) = 11
   \<and> round_half_up (7388718138654719 / 562949953421312
        * (1 - of_int (totalPercent Monday [''1260383669839724634'']) / 100)) 10"
  by code_simp

text \<open>
  C4. The price the shop view shows and the price the purchase charges are computed
  differently when both discounts apply: for a price of 100 on a Saturday and a member
  with the discount role, the purchase charges 75 and the shop view shows 76.
\<close>

theorem shop_view_price_differs:
  "discountedPrice Saturday [''1260383669839724634''] 100 = 75
   \<and> displayShopData_discountedPrice Saturday [''1260383669839724634''] 100 = 76"
  by code_simp

section \<open>Properties of the rank calculator and the achievement evaluator\<close>

text \<open>
  C5. The rank of a user for a metric is one plus the number of stored users whose value
  of that metric is strictly greater; on a cache miss the profile handler reports that
  rank for each of its four metrics (all-time, today, 7 days, 30 days). For the three
  users with 10, 10 and 5 messages the ranks are 1, 1 and 3.
\<close>

theorem rank_is_one_plus_strictly_greater:
  "userRank field docs u = 1 + card {i. i < length docs \<and> field u < field (docs ! i)}
   \<and> (\<forall>env st k pd st'.
        cache_get (now env) (cache st) (''profile_'' @ k) = None
        \<and> get_profile env st k = (Json200 (ProfileBody pd), st') \<longrightarrow>
        (\<exists>userStats. findOne (\<lambda>x. uuid x = k) (users (db st)) = Some userStats
           \<and> userRankAllTime pd = userRank totalMessages (users (db st)) userStats
           \<and> userRankToday pd = userRank messagesToday (users (db st)) userStats
           \<and> userRankLast7Days pd = userRank messagesLast7Days (users (db st)) userStats
           \<and> userRankLast30Days pd = userRank messagesLast30Days (users (db st)) userStats))
   \<and> map (userRank totalMessages ex_ranking) ex_ranking = [1, 1, 3]"
proof (intro conjI allI impI)
  show "userRank field docs u = 1 + card {i. i < length docs \<and> field u < field (docs ! i)}"
    by (simp add: userRank_def countDocuments_card)
next
  fix env st k pd st'
  assume a: "cache_get (now env) (cache st) (''profile_'' @ k) = None
        \<and> get_profile env st k = (Json200 (ProfileBody pd), st')"
  then have a1: "cache_get (now env) (cache st) (''profile_'' @ k) = None"
    and a2: "get_profile env st k = (Json200 (ProfileBody pd), st')" by simp_all
  from a1 a2 obtain i and m :: GuildMember
    where i: "findIndex (\<lambda>x. uuid x = k) (users (db st)) = Some i"
    and b: "ProfileBody pd = ProfileBody (profileData (users (db st)) (users (db st) ! i)
               (case member_roles m of None \<Rightarrow> [] | Some rs \<Rightarrow> rs))"
    by (rule get_profile_missE)
  from i have "findOne (\<lambda>x. uuid x = k) (users (db st)) = Some (users (db st) ! i)"
    by (simp add: findOne_def)
  moreover from b have "pd = profileData (users (db st)) (users (db st) ! i)
               (case member_roles m of None \<Rightarrow> [] | Some rs \<Rightarrow> rs)" by simp
  ultimately show "\<exists>userStats. findOne (\<lambda>x. uuid x = k) (users (db st)) = Some userStats
           \<and> userRankAllTime pd = userRank totalMessages (users (db st)) userStats
           \<and> userRankToday pd = userRank messagesToday (users (db st)) userStats
           \<and> userRankLast7Days pd = userRank messagesLast7Days (users (db st)) userStats
           \<and> userRankLast30Days pd = userRank messagesLast30Days (users (db st)) userStats"
    by (simp add: profileData_def)
next
  show "map (userRank totalMessages ex_ranking) ex_ranking = [1, 1, 3]"
    by (simp add: ex_ranking_def ex_user_def userRank_def countDocuments_def)
qed

theorem rank_is_one_plus_strictly_greater_witness:
  "fst (get_profile ex_read_env ex_rank_state ''uuid-3'')
     = Json200 (ProfileBody (profileData ex_ranking (ex_ranking ! 2) []))
   \<and> userRankAllTime (profileData ex_ranking (ex_ranking ! 2) []) = 3
   \<and> card {i. i < length ex_ranking
              \<and> totalMessages (ex_ranking ! 2) < totalMessages (ex_ranking ! i)} = 2
   \<and> map (\<lambda>k. case fst (get_profile ex_read_env ex_rank_state k) of
              Json200 (ProfileBody pd) \<Rightarrow> userRankAllTime pd
            | _ \<Rightarrow> 0) [''uuid-1'', ''uuid-2'', ''uuid-3''] = [1, 1, 3]"
proof -
  let ?r = "get_profile ex_read_env ex_rank_state ''uuid-3''"
  let ?pd = "profileData ex_ranking (ex_ranking ! 2) []"
  note inst = rank_is_one_plus_strictly_greater [of totalMessages ex_ranking "ex_ranking ! 2"]
  have miss: "cache_get (now ex_read_env) (cache ex_rank_state) (''profile_'' @ ''uuid-3'') = None"
    by (simp add: cache_get_def ex_rank_state_def)
  have f: "fst ?r = Json200 (ProfileBody ?pd)"
    by (simp add: get_profile_def cache_get_def fetchUserGuildMember_def Let_def ex_read_env_def
        ex_rank_state_def ex_ranking_def ex_user_def)
  then have g: "?r = (Json200 (ProfileBody ?pd), snd ?r)" by (metis prod.collapse)
  have u: "findOne (\<lambda>x. uuid x = ''uuid-3'') (users (db ex_rank_state)) = Some (ex_ranking ! 2)"
    by (simp add: findOne_def ex_rank_state_def ex_ranking_def ex_user_def)
  from inst miss g have "\<exists>userStats.
      findOne (\<lambda>x. uuid x = ''uuid-3'') (users (db ex_rank_state)) = Some userStats
      \<and> userRankAllTime ?pd = userRank totalMessages (users (db ex_rank_state)) userStats"
    by blast
  with u have e: "userRankAllTime ?pd = userRank totalMessages ex_ranking (ex_ranking ! 2)"
    by (auto simp: ex_rank_state_def)
  have b: "userRank totalMessages ex_ranking (ex_ranking ! 2) = 3"
    by (simp add: ex_ranking_def ex_user_def userRank_def countDocuments_def)
  have a: "map (\<lambda>k. case fst (get_profile ex_read_env ex_rank_state k) of
              Json200 (ProfileBody pd) \<Rightarrow> userRankAllTime pd
            | _ \<Rightarrow> 0) [''uuid-1'', ''uuid-2'', ''uuid-3''] = [1, 1, 3]"
    by (simp add: read_defs ex_read_env_def ex_rank_state_def ex_ranking_def ex_user_def)
  from inst b have "card {i. i < length ex_ranking
              \<and> totalMessages (ex_ranking ! 2) < totalMessages (ex_ranking ! i)} = 2"
    by simp
  with f e b a show ?thesis by simp
qed

text \<open>
  C6. The evaluator returns one entry per catalog definition, in catalog order; the
  progress is the today-message count for \<open>message_master\<close>, the voice time in
  milliseconds divided by 1000 and rounded down for \<open>voice_time_10s\<close>, and 0 for the
  other two; an entry is completed exactly when a persisted record of the same name has
  its completion flag set. Both handlers return these entries on a cache miss.
\<close>

theorem achievement_evaluator:
  "map AchievementDefinition.truncate (userAchievements u) = achievements_catalog
   \<and> map (\<lambda>e. (ach_name e, progress e)) (userAchievements u)
       = [(''message_master'', messagesToday u), (''voice_champion'', 0), (''lovebird'', 0),
          (''voice_time_10s'', \<lfloor>(of_int (voiceTime u) :: rat) / 1000\<rfloor>)]
   \<and> (\<forall>e \<in> set (userAchievements u).
         completed e = (\<exists>a \<in> set (achievements u). a_name a = ach_name e \<and> a_completed a))
   \<and> (\<forall>env st k pd st'.
         cache_get (now env) (cache st) (''profile_'' @ k) = None
         \<and> get_profile env st k = (Json200 (ProfileBody pd), st') \<longrightarrow>
         (\<exists>userStats. findOne (\<lambda>x. uuid x = k) (users (db st)) = Some userStats
            \<and> pd_achievements pd = userAchievements userStats))
   \<and> (\<forall>env st k body st'.
         cache_get (now env) (cache st) (''achievements_'' @ k) = None
         \<and> get_achievements env st k = (Json200 body, st') \<longrightarrow>
         (\<exists>userStats. findOne (\<lambda>x. uuid x = k) (users (db st)) = Some userStats
            \<and> body = AchievementsBody (userAchievements userStats)))"
proof (intro conjI allI impI ballI)
  show "map AchievementDefinition.truncate (userAchievements u) = achievements_catalog"
    by (simp add: userAchievements_def achievements_catalog_def evalAchievement_def Let_def
        AchievementDefinition.truncate_def)
next
  have "\<lfloor>(of_int (voiceTime u) :: rat) / 1000\<rfloor> = voiceTime u div 1000"
    using floor_divide_of_int_eq [of "voiceTime u" 1000, where ?'a = rat] by simp
  then show "map (\<lambda>e. (ach_name e, progress e)) (userAchievements u)
       = [(''message_master'', messagesToday u), (''voice_champion'', 0), (''lovebird'', 0),
          (''voice_time_10s'', \<lfloor>(of_int (voiceTime u) :: rat) / 1000\<rfloor>)]"
    by (simp add: userAchievements_def achievements_catalog_def evalAchievement_def Let_def)
next
  fix e
  assume "e \<in> set (userAchievements u)"
  then obtain d where "e = evalAchievement u d" by (auto simp: userAchievements_def)
  then show "completed e = (\<exists>a \<in> set (achievements u). a_name a = ach_name e \<and> a_completed a)"
    by (simp add: evalAchievement_completed) (simp add: evalAchievement_def Let_def)
next
  fix env st k pd st'
  assume a: "cache_get (now env) (cache st) (''profile_'' @ k) = None
         \<and> get_profile env st k = (Json200 (ProfileBody pd), st')"
  then have a1: "cache_get (now env) (cache st) (''profile_'' @ k) = None"
    and a2: "get_profile env st k = (Json200 (ProfileBody pd), st')" by simp_all
  from a1 a2 obtain i and m :: GuildMember
    where i: "findIndex (\<lambda>x. uuid x = k) (users (db st)) = Some i"
    and b: "ProfileBody pd = ProfileBody (profileData (users (db st)) (users (db st) ! i)
               (case member_roles m of None \<Rightarrow> [] | Some rs \<Rightarrow> rs))"
    by (rule get_profile_missE)
  from i have "findOne (\<lambda>x. uuid x = k) (users (db st)) = Some (users (db st) ! i)"
    by (simp add: findOne_def)
  moreover from b have "pd_achievements pd = userAchievements (users (db st) ! i)"
    by (simp add: profileData_def)
  ultimately show "\<exists>userStats. findOne (\<lambda>x. uuid x = k) (users (db st)) = Some userStats
            \<and> pd_achievements pd = userAchievements userStats" by simp
next
  fix env st k body st'
  assume a: "cache_get (now env) (cache st) (''achievements_'' @ k) = None
         \<and> get_achievements env st k = (Json200 body, st')"
  then have a1: "cache_get (now env) (cache st) (''achievements_'' @ k) = None"
    and a2: "get_achievements env st k = (Json200 body, st')" by simp_all
  from a1 a2 obtain i
    where i: "findIndex (\<lambda>x. uuid x = k) (users (db st)) = Some i"
    and b: "body = AchievementsBody (userAchievements (users (db st) ! i))"
    by (rule get_achievements_missE)
  from i have "findOne (\<lambda>x. uuid x = k) (users (db st)) = Some (users (db st) ! i)"
    by (simp add: findOne_def)
  with b show "\<exists>userStats. findOne (\<lambda>x. uuid x = k) (users (db st)) = Some userStats
            \<and> body = AchievementsBody (userAchievements userStats)" by simp
qed

text \<open>
  A voice time of 5000 ms gives progress 5, completed or not as the persisted record says;
  a progress that reaches the target (3600 seconds, 500 messages) leaves the entry
  uncompleted when no persisted record is.
\<close>

theorem achievement_evaluator_witness:
  "map (\<lambda>e. (ach_name e, progress e, completed e)) (userAchievements (ex_user\<lparr>voiceTime := 5000\<rparr>))
     = [(''message_master'', 3, False), (''voice_champion'', 0, False), (''lovebird'', 0, False),
        (''voice_time_10s'', 5, False)]
   \<and> map (\<lambda>e. (ach_name e, progress e, completed e))
        (userAchievements (ex_user\<lparr>voiceTime := 5000,
           achievements := [\<lparr>a_name = ''voice_time_10s'', a_completed = True\<rparr>]\<rparr>))
     = [(''message_master'', 3, False), (''voice_champion'', 0, False), (''lovebird'', 0, False),
        (''voice_time_10s'', 5, True)]
   \<and> map (\<lambda>e. (ach_name e, progress e, completed e))
        (userAchievements (ex_user\<lparr>voiceTime := 3600000, messagesToday := 500,
           achievements := [\<lparr>a_name = ''voice_time_10s'', a_completed = False\<rparr>]\<rparr>))
     = [(''message_master'', 500, False), (''voice_champion'', 0, False), (''lovebird'', 0, False),
        (''voice_time_10s'', 3600, False)]
   \<and> fst (get_achievements ex_read_env ex_rank_state ''uuid-1'')
       = Json200 (AchievementsBody (userAchievements ex_user))
   \<and> fst (get_profile ex_read_env ex_rank_state ''uuid-1'')
       = Json200 (ProfileBody (profileData ex_ranking ex_user []))
   \<and> pd_achievements (profileData ex_ranking ex_user []) = userAchievements ex_user
   \<and> map AchievementDefinition.truncate (userAchievements ex_user) = achievements_catalog"
proof -
  note inst = achievement_evaluator [of ex_user]
  let ?g = "get_achievements ex_read_env ex_rank_state ''uuid-1''"
  let ?p = "get_profile ex_read_env ex_rank_state ''uuid-1''"
  have a: "map (\<lambda>e. (ach_name e, progress e, completed e)) (userAchievements (ex_user\<lparr>voiceTime := 5000\<rparr>))
     = [(''message_master'', 3, False), (''voice_champion'', 0, False), (''lovebird'', 0, False),
        (''voice_time_10s'', 5, False)]"
    by (simp add: ach_defs ex_user_def)
  have b: "map (\<lambda>e. (ach_name e, progress e, completed e))
        (userAchievements (ex_user\<lparr>voiceTime := 5000,
           achievements := [\<lparr>a_name = ''voice_time_10s'', a_completed = True\<rparr>]\<rparr>))
     = [(''message_master'', 3, False), (''voice_champion'', 0, False), (''lovebird'', 0, False),
        (''voice_time_10s'', 5, True)]"
    by (simp add: ach_defs ex_user_def)
  have c: "map (\<lambda>e. (ach_name e, progress e, completed e))
        (userAchievements (ex_user\<lparr>voiceTime := 3600000, messagesToday := 500,
           achievements := [\<lparr>a_name = ''voice_time_10s'', a_completed = False\<rparr>]\<rparr>))
     = [(''message_master'', 500, False), (''voice_champion'', 0, False), (''lovebird'', 0, False),
        (''voice_time_10s'', 3600, False)]"
    by (simp add: ach_defs ex_user_def)
  have u: "findOne (\<lambda>x. uuid x = ''uuid-1'') (users (db ex_rank_state)) = Some ex_user"
    by (simp add: findOne_def ex_rank_state_def ex_ranking_def ex_user_def)
  have miss_a: "cache_get (now ex_read_env) (cache ex_rank_state) (''achievements_'' @ ''uuid-1'') = None"
    by (simp add: cache_get_def ex_rank_state_def)
  have miss_p: "cache_get (now ex_read_env) (cache ex_rank_state) (''profile_'' @ ''uuid-1'') = None"
    by (simp add: cache_get_def ex_rank_state_def)
  have d0: "fst ?g = Json200 (AchievementsBody (userAchievements ex_user))"
    by (simp add: get_achievements_def cache_get_def Let_def ex_read_env_def ex_rank_state_def
        ex_ranking_def ex_user_def)
  then have g: "?g = (Json200 (AchievementsBody (userAchievements ex_user)), snd ?g)"
    by (cases ?g) simp
  note hand_a = inst [THEN conjunct2, THEN conjunct2, THEN conjunct2, THEN conjunct2, rule_format,
      OF conjI [OF miss_a g]]
  from hand_a u have d: "fst ?g = Json200 (AchievementsBody (userAchievements ex_user))"
    by (simp add: d0)
  have e: "fst ?p = Json200 (ProfileBody (profileData ex_ranking ex_user []))"
    by (simp add: get_profile_def cache_get_def fetchUserGuildMember_def Let_def ex_read_env_def
        ex_rank_state_def ex_ranking_def ex_user_def)
  then have h: "?p = (Json200 (ProfileBody (profileData ex_ranking ex_user [])), snd ?p)"
    by (cases ?p) simp
  note hand_p = inst [THEN conjunct2, THEN conjunct2, THEN conjunct2, THEN conjunct1, rule_format,
      OF conjI [OF miss_p h]]
  from hand_p u have f: "pd_achievements (profileData ex_ranking ex_user []) = userAchievements ex_user"
    by auto
  from inst a b c d e f show ?thesis by simp
qed

section \<open>Property of the identity bridge\<close>

text \<open>
  C7, as the code has it. A login that succeeds builds the map of role acquisition dates
  anew from the member record that \<^verbatim>\<open>fetchUserGuildMember\<close> returns: the record kept in
  \<^verbatim>\<open>userGuildMemberCache\<close> when the process holds one for the user, whatever Discord would
  answer now, and the answer of the Discord API otherwise. Every allow-listed role in the
  role list of that record is mapped to the time of this login, no other key is present,
  the user document stored afterwards carries this map, and the record is in the cache
  afterwards. A date recorded by an earlier login is therefore replaced.
\<close>

theorem login_rebuilds_role_dates:
  assumes "verify env st profile = (Inr user, st')"
  shows "\<exists>m rs.
     (case userGuildMemberCache st (profile_id profile) of
        Some cached \<Rightarrow> m = cached
      | None \<Rightarrow> login_discord env (profile_id profile) = Some m)
     \<and> member_roles m = Some rs
     \<and> (\<forall>r. map_of (roleAcquisitionDates user) r
            = (if r \<in> set allowedRoleIds \<and> r \<in> set rs then Some (login_now env) else None))
     \<and> findOne (\<lambda>u. userId u = profile_id profile \<and> serverId u = GUILD_ID) (users (db st')) = Some user
     \<and> userGuildMemberCache st' (profile_id profile) = Some m"
proof -
  from assms obtain m :: GuildMember and rs where
    1: "case userGuildMemberCache st (profile_id profile) of
          Some cached \<Rightarrow> m = cached
        | None \<Rightarrow> login_discord env (profile_id profile) = Some m"
    and 2: "member_roles m = Some rs"
    and 3: "roleAcquisitionDates user = roleDatesLoop allowedRoleIds rs (login_now env) []"
    and 4: "userId user = profile_id profile \<and> serverId user = GUILD_ID"
    and 5: "users (db st') =
       (case findIndex (\<lambda>u. userId u = profile_id profile \<and> serverId u = GUILD_ID) (users (db st)) of
          Some i \<Rightarrow> (users (db st))[i := user]
        | None \<Rightarrow> users (db st) @ [user])"
    and 8: "userGuildMemberCache st' (profile_id profile) = Some m"
    by (rule verify_InrE)
  from 3 have 6: "map_of (roleAcquisitionDates user) r
            = (if r \<in> set allowedRoleIds \<and> r \<in> set rs then Some (login_now env) else None)" for r
    by (simp add: roleDatesLoop_map_of)
  have 7: "findOne (\<lambda>u. userId u = profile_id profile \<and> serverId u = GUILD_ID) (users (db st')) = Some user"
  proof (cases "findIndex (\<lambda>u. userId u = profile_id profile \<and> serverId u = GUILD_ID) (users (db st))")
    case None
    with 4 5 show ?thesis by (simp add: findOne_def findIndex_append_None)
  next
    case (Some i)
    with 4 5 show ?thesis by (simp add: findOne_update_at)
  qed
  from 1 2 6 7 8 show ?thesis by blast
qed

text \<open>
  The example user logs in at time 200 with nothing cached, holding the first
  allow-listed role: the map holds that role at 200 and the member record is cached. At a
  further login at time 300, when Discord would report no role at all, the cached record
  is used and the role is stamped 300.
\<close>

theorem login_rebuilds_role_dates_witness:
  "fst (verify ex_login_env (ex_state []) ex_profile)
     = Inr (ex_user\<lparr>userAvatar := ''a2'',
              roleAcquisitionDates := [(''1043565185509630022'', 200)]\<rparr>)
   \<and> findOne (\<lambda>u. userId u = ''1001'' \<and> serverId u = GUILD_ID)
        (users (db (snd (verify ex_login_env (ex_state []) ex_profile))))
     = Some (ex_user\<lparr>userAvatar := ''a2'',
              roleAcquisitionDates := [(''1043565185509630022'', 200)]\<rparr>)
   \<and> userGuildMemberCache (snd (verify ex_login_env (ex_state []) ex_profile)) ''1001''
     = Some \<lparr>member_roles = Some [''1043565185509630022'']\<rparr>
   \<and> fst (verify (ex_login_env\<lparr>login_now := 300, login_discord := (\<lambda>u. Some \<lparr>member_roles = Some []\<rparr>)\<rparr>)
            (snd (verify ex_login_env (ex_state []) ex_profile)) ex_profile)
     = Inr (ex_user\<lparr>userAvatar := ''a2'',
              roleAcquisitionDates := [(''1043565185509630022'', 300)]\<rparr>)"
proof -
  let ?r = "verify ex_login_env (ex_state []) ex_profile"
  let ?u = "ex_user\<lparr>userAvatar := ''a2'', roleAcquisitionDates := [(''1043565185509630022'', 200)]\<rparr>"
  have a: "fst ?r = Inr ?u"
    by (simp add: login_defs ex_defs ex_login_env_def ex_profile_def)
  then have h: "?r = (Inr ?u, snd ?r)" by (metis prod.collapse)
  have b: "fst (verify (ex_login_env\<lparr>login_now := 300, login_discord := (\<lambda>u. Some \<lparr>member_roles = Some []\<rparr>)\<rparr>)
            (snd ?r) ex_profile)
     = Inr (ex_user\<lparr>userAvatar := ''a2'',
              roleAcquisitionDates := [(''1043565185509630022'', 300)]\<rparr>)"
    by (simp add: login_defs ex_defs ex_login_env_def ex_profile_def)
  have c: "userGuildMemberCache (ex_state []) (profile_id ex_profile) = None"
    by (simp add: ex_state_def)
  have d: "login_discord ex_login_env (profile_id ex_profile)
     = Some \<lparr>member_roles = Some [''1043565185509630022'']\<rparr>"
    by (simp add: ex_login_env_def)
  from login_rebuilds_role_dates [OF h] a b c d show ?thesis
    by (auto simp: ex_profile_def)
qed

text \<open>
  C7 as stated fails: the example user logs in at time 100 and again at time 200, holding
  the same allow-listed role both times; the date stored for the role is 100 after the
  first login and 200 after the second.
\<close>

theorem login_overwrites_role_date:
  "map_of (roleAcquisitionDates (users (db
       (snd (verify (ex_login_env\<lparr>login_now := 100\<rparr>) (ex_state []) ex_profile))) ! 0))
     ''1043565185509630022'' = Some 100
   \<and> map_of (roleAcquisitionDates (users (db
       (snd (verify ex_login_env
          (snd (verify (ex_login_env\<lparr>login_now := 100\<rparr>) (ex_state []) ex_profile))
          ex_profile))) ! 0))
     ''1043565185509630022'' = Some 200"
  by (simp add: login_defs ex_defs ex_login_env_def ex_profile_def)

section \<open>Invariants and frame of the purchase\<close>

text \<open>
  C8. After a committed purchase the user's stars are not negative (whatever the balance
  before, so in particular for a balance that was not negative), and a finite stock was
  lowered by the quantity, read as a number, to a value that is not negative; an unlimited
  stock stays \<open>-1\<close>.
\<close>

theorem purchase_keeps_balance_and_stock_nonnegative:
  assumes "post_buy env st req = Some (Purchased qv n t, st')"
  shows "\<exists>user item s' q.
     userOf (db st) (req_uuid req) (req_userId req) = Some user
     \<and> itemOf (db st) (req_itemName req) = Some item
     \<and> qv = req_quantity req \<and> ToNumber qv = Some q
     \<and> map_option stars (userOf (db st') (req_uuid req) (req_userId req)) = Some s'
     \<and> 0 \<le> s'
     \<and> (if stock item = - 1
         then map_option stock (itemOf (db st') (req_itemName req)) = Some (- 1)
         else map_option stock (itemOf (db st') (req_itemName req)) = Some (stock item - q)
              \<and> 0 \<le> stock item - q)"
proof -
  from post_buy_effects [OF assms] obtain user item roles q where
    1: "userOf (db st) (req_uuid req) (req_userId req) = Some user" and
    2: "itemOf (db st) (req_itemName req) = Some item" and
    q: "qv = req_quantity req" "ToNumber qv = Some q" and
    3: "\<not> (stock item \<noteq> - 1 \<and> stock item < q)" and
    4: "\<not> stars user < discountedPrice (today env) roles (price item) * q" and
    5: "map_option stars (userOf (db st') (req_uuid req) (req_userId req))
       = Some (stars user - discountedPrice (today env) roles (price item) * q)" and
    6: "map_option stock (itemOf (db st') (req_itemName req))
       = Some (if stock item = - 1 then - 1 else stock item - q)"
    by blast
  from 4 have 7: "0 \<le> stars user - discountedPrice (today env) roles (price item) * q" by simp
  from 3 6 have 8: "(if stock item = - 1
         then map_option stock (itemOf (db st') (req_itemName req)) = Some (- 1)
         else map_option stock (itemOf (db st') (req_itemName req)) = Some (stock item - q)
              \<and> 0 \<le> stock item - q)" by auto
  from 1 2 q 5 7 8 show ?thesis by blast
qed

text \<open>
  Five swords for 375 stars leave 125 stars and a stock of 0; six swords are refused for
  the stock, and 21 potions at 25 stars for the balance.
\<close>

theorem purchase_keeps_balance_and_stock_nonnegative_witness:
  "(\<exists>st'. post_buy ex_env (ex_state [ex_inventory]) (ex_request ''sword'' (JsNumber 5))
            = Some (Purchased (JsNumber 5) ''sword'' 375, st')
      \<and> map_option stars (userOf (db st') ''uuid-1'' ''1001'') = Some 125
      \<and> map_option stock (itemOf (db st') ''sword'') = Some 0)
   \<and> map_option fst (post_buy ex_env (ex_state [ex_inventory]) (ex_request ''sword'' (JsNumber 6)))
       = Some InsufficientStock
   \<and> map_option fst (post_buy ex_env (ex_state [ex_inventory]) (ex_request ''potion'' (JsNumber 21)))
       = Some InsufficientStars"
proof -
  let ?r = "post_buy ex_env (ex_state [ex_inventory]) (ex_request ''sword'' (JsNumber 5))"
  have "map_option fst ?r = Some (Purchased (JsNumber 5) ''sword'' 375)"
    by (simp add: ex_defs buy_defs)
  then obtain st' where h: "?r = Some (Purchased (JsNumber 5) ''sword'' 375, st')" by auto
  have u: "userOf (db (ex_state [ex_inventory])) ''uuid-1'' ''1001'' = Some ex_user"
    by (simp add: userOf_def findOne_def ex_defs)
  have i: "itemOf (db (ex_state [ex_inventory])) ''sword'' = Some ex_sword"
    by (simp add: itemOf_def findOne_def ex_defs)
  have "map_option (\<lambda>r. map_option stars (userOf (db (snd r)) ''uuid-1'' ''1001'')) ?r = Some (Some 125)"
    by (simp add: ex_defs buy_defs userOf_def findOne_def)
  with h have s: "map_option stars (userOf (db st') ''uuid-1'' ''1001'') = Some 125" by simp
  have a: "map_option fst (post_buy ex_env (ex_state [ex_inventory]) (ex_request ''sword'' (JsNumber 6)))
       = Some InsufficientStock"
    by (simp add: ex_defs buy_defs)
  have b: "map_option fst (post_buy ex_env (ex_state [ex_inventory]) (ex_request ''potion'' (JsNumber 21)))
       = Some InsufficientStars"
    by (simp add: ex_defs buy_defs)
  from purchase_keeps_balance_and_stock_nonnegative [OF h] u i
  have "map_option stock (itemOf (db st') ''sword'') = Some 0"
    by (auto simp: ex_request_def ex_sword_def)
  with h s a b show ?thesis by simp
qed

text \<open>
  C9. The purchase handler leaves the server's cache as it was: a profile or achievements
  entry that is live at the time of a later read is returned by that read unchanged,
  whatever the purchase wrote to the database. In the client, a successful purchase drops
  its own cached profile and shop data and fetches both again, so the profile it then
  holds is the server's cached one. A request whose quantity is a number always gets a
  response.
\<close>

theorem purchase_leaves_server_cache:
  "(\<forall>q. req_quantity req = JsNumber q \<longrightarrow> post_buy benv st req \<noteq> None)
   \<and> (\<forall>r st'. post_buy benv st req = Some (r, st') \<longrightarrow>
        cache st' = cache st
        \<and> (\<forall>renv k v. cache_get (now renv) (cache st) (''profile_'' @ k) = Some v \<longrightarrow>
              fst (get_profile renv st' k) = Json200 v)
        \<and> (\<forall>renv k v. cache_get (now renv) (cache st) (''achievements_'' @ k) = Some v \<longrightarrow>
              fst (get_achievements renv st' k) = Json200 v)
        \<and> (\<forall>renv cs v q.
              buy_status r = 200 \<and> req_uuid req \<noteq> [] \<and> req_quantity req = JsNumber q
              \<and> cache_get (now renv) (cache st) (''profile_'' @ req_uuid req) = Some v \<longrightarrow>
              buyItem benv renv (req_userId req) (cs, st) (req_uuid req) (req_itemName req) q
                = Some (cs\<lparr>cachedProfileData := (cachedProfileData cs)(req_uuid req \<mapsto> v),
                           shopDataCache := Some (shop (db st'))\<rparr>, st')))"
proof (intro conjI allI impI)
  fix q
  assume "req_quantity req = JsNumber q"
  then show "post_buy benv st req \<noteq> None" by (rule post_buy_number_followed)
next
  fix r st'
  assume "post_buy benv st req = Some (r, st')"
  then show "cache st' = cache st" by (simp add: post_buy_frame)
next
  fix r st' and renv :: ReadEnv and k v
  assume "post_buy benv st req = Some (r, st')"
    and "cache_get (now renv) (cache st) (''profile_'' @ k) = Some v"
  then have "cache_get (now renv) (cache st') (''profile_'' @ k) = Some v"
    by (simp add: post_buy_frame)
  then show "fst (get_profile renv st' k) = Json200 v"
    by (simp add: get_profile_hit)
next
  fix r st' and renv :: ReadEnv and k v
  assume "post_buy benv st req = Some (r, st')"
    and "cache_get (now renv) (cache st) (''achievements_'' @ k) = Some v"
  then have "cache_get (now renv) (cache st') (''achievements_'' @ k) = Some v"
    by (simp add: post_buy_frame)
  then show "fst (get_achievements renv st' k) = Json200 v"
    by (simp add: get_achievements_hit)
next
  fix r st' and renv :: ReadEnv and cs v q
  assume pb: "post_buy benv st req = Some (r, st')"
    and a: "buy_status r = 200 \<and> req_uuid req \<noteq> [] \<and> req_quantity req = JsNumber q
         \<and> cache_get (now renv) (cache st) (''profile_'' @ req_uuid req) = Some v"
  from a have "\<lparr>req_uuid = req_uuid req, req_userId = req_userId req,
              req_itemName = req_itemName req, req_quantity = JsNumber q\<rparr> = req"
    by simp
  with pb have pb': "post_buy benv st \<lparr>req_uuid = req_uuid req, req_userId = req_userId req,
              req_itemName = req_itemName req, req_quantity = JsNumber q\<rparr> = Some (r, st')"
    by simp
  from a show "buyItem benv renv (req_userId req) (cs, st) (req_uuid req) (req_itemName req) q
                = Some (cs\<lparr>cachedProfileData := (cachedProfileData cs)(req_uuid req \<mapsto> v),
                           shopDataCache := Some (shop (db st'))\<rparr>, st')"
    by (intro buyItem_refetches [OF pb']) simp_all
qed

text \<open>
  The profile cached at time 1000 shows 500 stars; after the purchase of two swords the
  database holds 350, and a read at time 2000, like the client's cache, still shows 500.
\<close>

theorem purchase_leaves_server_cache_witness:
  "\<exists>st'. post_buy ex_env ex_cached_state (ex_request ''sword'' (JsNumber 2))
            = Some (Purchased (JsNumber 2) ''sword'' 150, st')
      \<and> fst (get_profile (ex_read_env\<lparr>now := 2000\<rparr>) st' ''uuid-1'')
          = Json200 (ProfileBody (profileData [ex_user] ex_user []))
      \<and> stars (pd_userStats (profileData [ex_user] ex_user [])) = 500
      \<and> map_option stars (userOf (db st') ''uuid-1'' ''1001'') = Some 350
      \<and> map_option (\<lambda>r. cachedProfileData (fst r) ''uuid-1'')
          (buyItem ex_env (ex_read_env\<lparr>now := 2000\<rparr>) ''1001''
             (ex_client, ex_cached_state) ''uuid-1'' ''sword'' 2)
          = Some (Some (ProfileBody (profileData [ex_user] ex_user [])))"
proof -
  let ?renv = "ex_read_env\<lparr>now := 2000\<rparr>"
  let ?req = "ex_request ''sword'' (JsNumber 2)"
  let ?v = "ProfileBody (profileData [ex_user] ex_user [])"
  have hit: "cache_get (now ?renv) (cache ex_cached_state) (''profile_'' @ req_uuid ?req) = Some ?v"
    by (simp add: ex_cached_state_eq cache_get_def cache_set_def ex_read_env_def ex_request_def)
  have "map_option fst (post_buy ex_env ex_cached_state ?req) = Some (Purchased (JsNumber 2) ''sword'' 150)"
    by (simp add: ex_cached_state_eq ex_defs buy_defs)
  then obtain st' where pb: "post_buy ex_env ex_cached_state ?req
      = Some (Purchased (JsNumber 2) ''sword'' 150, st')" by auto
  have s: "stars (pd_userStats (profileData [ex_user] ex_user [])) = 500"
    by (simp add: profileData_def ex_user_def)
  have "map_option (\<lambda>r. map_option stars (userOf (db (snd r)) ''uuid-1'' ''1001''))
          (post_buy ex_env ex_cached_state ?req) = Some (Some 350)"
    by (simp add: ex_cached_state_eq ex_defs buy_defs userOf_def findOne_def)
  with pb have d: "map_option stars (userOf (db st') ''uuid-1'' ''1001'') = Some 350" by simp
  have r: "req_userId ?req = ''1001''" "req_uuid ?req = ''uuid-1''" "req_itemName ?req = ''sword''"
    "req_quantity ?req = JsNumber 2" by (simp_all add: ex_request_def)
  note inst = purchase_leaves_server_cache [of ?req ex_env ex_cached_state, THEN conjunct2,
      rule_format, OF pb]
  from inst [THEN conjunct2, THEN conjunct1, rule_format, OF hit]
  have g: "fst (get_profile ?renv st' ''uuid-1'') = Json200 ?v" by (simp add: r)
  have c: "buy_status (Purchased (JsNumber 2) ''sword'' 150) = 200 \<and> req_uuid ?req \<noteq> []
      \<and> req_quantity ?req = JsNumber 2
      \<and> cache_get (now ?renv) (cache ex_cached_state) (''profile_'' @ req_uuid ?req) = Some ?v"
    using hit by (simp add: r)
  from inst [THEN conjunct2, THEN conjunct2, THEN conjunct2, rule_format, OF c]
  have b: "buyItem ex_env ?renv ''1001'' (ex_client, ex_cached_state) ''uuid-1'' ''sword'' 2
      = Some (ex_client\<lparr>cachedProfileData := (cachedProfileData ex_client)(''uuid-1'' \<mapsto> ?v),
                 shopDataCache := Some (shop (db st'))\<rparr>, st')"
    by (simp add: r)
  from pb g s d b show ?thesis by simp
qed

text \<open>
  C10. The handler does not check that the quantity is positive. A request with a
  quantity of zero or less commits whenever the user, the item, the member's roles and a
  valid inventory document are found, the balance and the price are not negative, the
  stock is unlimited or not negative, and no database operation rejects: the charge is
  zero or negative, so the stars do not decrease, a finite stock is raised by the absolute
  quantity, and the inventory line receives the non-positive quantity.
\<close>

theorem nonpositive_quantity_commits:
  assumes q: "req_quantity req = JsNumber q" "q \<le> 0"
    and u: "userOf (db st) (req_uuid req) (req_userId req) = Some user" and s: "0 \<le> stars user"
    and i: "itemOf (db st) (req_itemName req) = Some item" and p: "0 \<le> price item"
    and k: "stock item = - 1 \<or> 0 \<le> stock item"
    and n: "item_id item \<noteq> []" "item_name item \<noteq> []"
    and r: "memberRoles env (req_userId req) = Some roles"
    and v: "inventoryOf (db st) (req_userId req) = Some inventory" "inventory_valid inventory"
    and f: "\<forall>x. \<not> dbFails env x"
  shows "\<exists>t st' inventory' l.
     post_buy env st req = Some (Purchased (JsNumber q) (item_name item) t, st')
     \<and> t \<le> 0
     \<and> map_option stars (userOf (db st') (req_uuid req) (req_userId req)) = Some (stars user - t)
     \<and> stars user \<le> stars user - t
     \<and> map_option stock (itemOf (db st') (req_itemName req))
         = Some (if stock item = - 1 then - 1 else stock item - q)
     \<and> inventoryOf (db st') (req_userId req) = Some inventory'
     \<and> lineOf inventory' (item_id item) = Some l
     \<and> quantity l = (case lineOf inventory (item_id item) of
                        None \<Rightarrow> q
                      | Some l0 \<Rightarrow> quantity l0 + q)"
proof -
  let ?dp = "discountedPrice (today env) roles (price item)"
  from p have dp: "0 \<le> ?dp" by (rule discountedPrice_nonneg)
  with q have t: "?dp * q \<le> 0" by (simp add: mult_nonneg_nonpos)
  with s have g2: "\<not> stars user < ?dp * q" by simp
  from k q have g1: "\<not> (stock item \<noteq> - 1 \<and> stock item < q)" by auto
  from q have tn: "ToNumber (req_quantity req) = Some q" by simp
  obtain ls where up: "upsertLine item (req_quantity req) (items inventory) = Some ls"
    by (simp add: q upsertLine_number)
  from v(2) have "list_all line_valid (items inventory)" by (simp add: inventory_valid_def)
  from upsertLine_valid [OF up this n] v(2)
  have va: "inventory_valid (inventory\<lparr>items := ls\<rparr>)"
    by (simp add: inventory_valid_def)
  from post_buy_commits [OF u i r v(1) f tn g1 g2 up va] q
  obtain st' where pb: "post_buy env st req = Some (Purchased (JsNumber q) (item_name item) (?dp * q), st')"
    by auto
  from post_buy_number_effects [OF pb q(1)] u i r v(1)
  obtain inventory' where
    e1: "map_option stars (userOf (db st') (req_uuid req) (req_userId req))
       = Some (stars user - ?dp * q)" and
    e2: "map_option stock (itemOf (db st') (req_itemName req))
       = Some (if stock item = - 1 then - 1 else stock item - q)" and
    e3: "inventoryOf (db st') (req_userId req) = Some inventory'" and
    e4: "(case lineOf inventory (item_id item) of
        Some l \<Rightarrow> lineOf inventory' (item_id item) = Some (l\<lparr>quantity := quantity l + q\<rparr>)
                  \<and> length (items inventory') = length (items inventory)
      | None \<Rightarrow> items inventory' =
                  items inventory @ [\<lparr>itemId = item_id item, itemName = item_name item, quantity = q\<rparr>])"
    by auto
  have "\<exists>l. lineOf inventory' (item_id item) = Some l
     \<and> quantity l = (case lineOf inventory (item_id item) of
                        None \<Rightarrow> q
                      | Some l0 \<Rightarrow> quantity l0 + q)"
  proof (cases "lineOf inventory (item_id item)")
    case None
    then have "findIndex (\<lambda>l. itemId l = item_id item) (items inventory) = None"
      by (simp add: lineOf_def findOne_def)
    with None e4 show ?thesis
      by (simp add: lineOf_def findOne_def findIndex_append_None)
  next
    case (Some l0)
    with e4 show ?thesis by simp
  qed
  then obtain l where e5: "lineOf inventory' (item_id item) = Some l
     \<and> quantity l = (case lineOf inventory (item_id item) of
                        None \<Rightarrow> q
                      | Some l0 \<Rightarrow> quantity l0 + q)" by blast
  from t have e6: "stars user \<le> stars user - ?dp * q" by simp
  from pb t e1 e6 e2 e3 e5 show ?thesis by blast
qed

text \<open>
  Quantity 0 appends a line of quantity 0; quantity \<open>-2\<close> of a sword raises the stars from
  500 to 650 and the stock from 5 to 7; quantity \<open>-1\<close> of the unlimited potion raises the
  stars to 525.
\<close>

theorem nonpositive_quantity_commits_witness:
  "(\<exists>st'. post_buy ex_env (ex_state [ex_inventory]) (ex_request ''sword'' (JsNumber 0))
            = Some (Purchased (JsNumber 0) ''sword'' 0, st')
      \<and> map_option items (inventoryOf (db st') ''1001'')
          = Some [\<lparr>itemId = ''65f1a0'', itemName = ''sword'', quantity = 0\<rparr>])
   \<and> (\<exists>st'. post_buy ex_env (ex_state [ex_inventory]) (ex_request ''sword'' (JsNumber (- 2)))
            = Some (Purchased (JsNumber (- 2)) ''sword'' (- 150), st')
      \<and> map_option stars (userOf (db st') ''uuid-1'' ''1001'') = Some 650
      \<and> map_option stock (itemOf (db st') ''sword'') = Some 7)
   \<and> (\<exists>st'. post_buy ex_env (ex_state [ex_inventory]) (ex_request ''potion'' (JsNumber (- 1)))
            = Some (Purchased (JsNumber (- 1)) ''potion'' (- 25), st')
      \<and> map_option stars (userOf (db st') ''uuid-1'' ''1001'') = Some 525)"
proof -
  let ?st = "ex_state [ex_inventory]"
  let ?r0 = "ex_request ''sword'' (JsNumber 0)"
  have q: "req_quantity ?r0 = JsNumber 0" "(0::int) \<le> 0" by (simp_all add: ex_request_def)
  have u: "userOf (db ?st) (req_uuid ?r0) (req_userId ?r0) = Some ex_user"
    by (simp add: userOf_def findOne_def ex_defs)
  have i: "itemOf (db ?st) (req_itemName ?r0) = Some ex_sword"
    by (simp add: itemOf_def findOne_def ex_defs)
  have v: "inventoryOf (db ?st) (req_userId ?r0) = Some ex_inventory"
    by (simp add: inventoryOf_def findOne_def ex_defs)
  have r: "memberRoles ex_env (req_userId ?r0) = Some [''1260383669839724634'']"
    by (simp add: ex_env_def)
  have l: "lineOf ex_inventory (item_id ex_sword) = None"
    by (simp add: lineOf_def findOne_def ex_defs)
  have a: "\<exists>t st' inventory' l.
     post_buy ex_env ?st ?r0 = Some (Purchased (JsNumber 0) (item_name ex_sword) t, st')
     \<and> inventoryOf (db st') (req_userId ?r0) = Some inventory'
     \<and> lineOf inventory' (item_id ex_sword) = Some l
     \<and> quantity l = 0"
    using nonpositive_quantity_commits [OF q u _ i _ _ _ _ r v] l
    by (simp add: ex_user_def ex_sword_def ex_inventory_def ex_env_def inventory_valid_def
        required_def GUILD_ID_def) blast
  have b: "post_buy ex_env ?st ?r0
     = Some (Purchased (JsNumber 0) ''sword'' 0,
         ?st\<lparr>db := \<lparr>users = [ex_user\<lparr>stars := 500\<rparr>],
            shop = [ex_sword\<lparr>stock := 5\<rparr>, ex_potion],
            inventories = [ex_inventory\<lparr>items :=
               [\<lparr>itemId = ''65f1a0'', itemName = ''sword'', quantity = 0\<rparr>]\<rparr>]\<rparr>\<rparr>)"
    using a by (simp add: ex_defs buy_defs)
  have c: "post_buy ex_env ?st (ex_request ''sword'' (JsNumber (- 2)))
     = Some (Purchased (JsNumber (- 2)) ''sword'' (- 150),
         ?st\<lparr>db := \<lparr>users = [ex_user\<lparr>stars := 650\<rparr>],
            shop = [ex_sword\<lparr>stock := 7\<rparr>, ex_potion],
            inventories = [ex_inventory\<lparr>items :=
               [\<lparr>itemId = ''65f1a0'', itemName = ''sword'', quantity = - 2\<rparr>]\<rparr>]\<rparr>\<rparr>)"
    by (simp add: ex_defs buy_defs)
  have d: "post_buy ex_env ?st (ex_request ''potion'' (JsNumber (- 1)))
     = Some (Purchased (JsNumber (- 1)) ''potion'' (- 25),
         ?st\<lparr>db := \<lparr>users = [ex_user\<lparr>stars := 525\<rparr>],
            shop = [ex_sword, ex_potion],
            inventories = [ex_inventory\<lparr>items :=
               [\<lparr>itemId = ''65f1a1'', itemName = ''potion'', quantity = - 1\<rparr>]\<rparr>]\<rparr>\<rparr>)"
    by (simp add: ex_defs buy_defs)
  show ?thesis
    unfolding b c d
    by (simp add: userOf_def itemOf_def inventoryOf_def findOne_def ex_defs)
qed

end
